theory Spec2Isabelle
  imports Complex_Main "HOL-Library.AList"
begin

section \<open>Python values\<close>

text \<open>
  The sources are \<^verbatim>\<open>src/server/consciousness/global_workspace.py\<close>,
  \<^verbatim>\<open>temporal_consciousness.py\<close> and \<^verbatim>\<open>consciousness_core.py\<close>.

  Conventions of the embedding:
  \<^item> a Python \<^verbatim>\<open>float\<close> is a \<^typ>\<open>real\<close>: arithmetic is exact, there is no rounding
    and no NaN;
  \<^item> a \<^verbatim>\<open>datetime\<close> is a \<^typ>\<open>real\<close> number of seconds, so that
    \<^verbatim>\<open>(a - b).total_seconds()\<close> is \<open>a - b\<close>;
  \<^item> a \<^verbatim>\<open>dict\<close> is an association list in insertion order with distinct keys; storing
    under a key that is present replaces the value in place (\<^const>\<open>AList.update\<close>),
    reading is \<^const>\<open>map_of\<close>;
  \<^item> every method takes the object's state and returns the new state; the readings of
    the clock that reach the state are parameters of the call that makes them;
  \<^item> calls of the \<^verbatim>\<open>logger\<close> have no effect on the state and are left out;
  \<^item> a leading underscore of a method name is dropped.
\<close>

datatype py_value = PyNone | PyBool bool | PyInt int | PyFloat real | PyStr string

type_synonym py_dict = "(string \<times> py_value) list"

text \<open>\<^verbatim>\<open>len(d)\<close> of a dict: the number of its keys.\<close>

definition py_len :: "('k \<times> 'v) list \<Rightarrow> nat" where
  "py_len d = length (remdups (map fst d))"

text \<open>\<^verbatim>\<open>str(n)\<close> of an integer, as the f-strings that build the ids print it.\<close>

definition digit_char :: "nat \<Rightarrow> char" where
  "digit_char d = ''0123456789'' ! d"

fun str_nat :: "nat \<Rightarrow> string" where
  "str_nat n = (if n < 10 then [digit_char n] else str_nat (n div 10) @ [digit_char (n mod 10)])"

definition str_int :: "int \<Rightarrow> string" where
  "str_int i = (if i < 0 then CHR ''-'' # str_nat (nat (- i)) else str_nat (nat i))"

section \<open>The global workspace (global\_workspace.py)\<close>

datatype AttentionLevel = BACKGROUND | PERIPHERAL | FOCUSED | CONSCIOUS

record WorkspaceContent =
  content_id :: string
  source_module :: string
  content_type :: string
  data :: py_dict
  attention_level :: AttentionLevel
  timestamp :: real
  priority :: real
  coherence_score :: real

record workspace_metrics =
  coherence_level :: real
  integration_depth :: real
  attention_stability :: real
  content_richness :: real

record GlobalWorkspaceSystem =
  workspace_contents :: "(string \<times> WorkspaceContent) list"
  module_connections :: "(string \<times> real) list"
  attention_focus :: "string list"
  consciousness_metrics :: workspace_metrics
  gw_initialized :: bool

text \<open>\<^verbatim>\<open>GlobalWorkspaceSystem.__init__\<close>\<close>

definition gw_init :: GlobalWorkspaceSystem where
  "gw_init =
     \<lparr>workspace_contents = [], module_connections = [], attention_focus = [],
      consciousness_metrics =
        \<lparr>coherence_level = 0, integration_depth = 0, attention_stability = 0,
         content_richness = 0\<rparr>,
      gw_initialized = False\<rparr>"

definition connected_modules :: "string list" where
  "connected_modules =
     [''temporal_consciousness'', ''social_cognition'', ''creative_intelligence'',
      ''value_learning'', ''virtue_learning'', ''embodied_cognition'',
      ''intrinsic_motivation'', ''autonomous_goals'', ''recursive_self_improvement'']"

definition initialize_module_connections :: "GlobalWorkspaceSystem \<Rightarrow> GlobalWorkspaceSystem" where
  "initialize_module_connections ws =
     ws\<lparr>module_connections :=
          fold (\<lambda>m mc. AList.update m 0.8 mc) connected_modules (module_connections ws)\<rparr>"

text \<open>
  \<^verbatim>\<open>GlobalWorkspaceSystem.initialize\<close>: nothing in the \<^verbatim>\<open>try\<close> body can raise, so the
  call returns \<^verbatim>\<open>True\<close>. It does not touch \<^verbatim>\<open>workspace_contents\<close> or
  \<^verbatim>\<open>attention_focus\<close>.
\<close>

definition gw_initialize :: "GlobalWorkspaceSystem \<Rightarrow> bool \<times> GlobalWorkspaceSystem" where
  "gw_initialize ws = (True, (initialize_module_connections ws)\<lparr>gw_initialized := True\<rparr>)"

definition calculate_coherence :: "GlobalWorkspaceSystem \<Rightarrow> py_dict \<Rightarrow> string \<Rightarrow> real" where
  "calculate_coherence ws d src =
     (let data_richness = min 1.0 (real (py_len d) / 10.0);
          module_strength =
            (case map_of (module_connections ws) src of None \<Rightarrow> 0.5 | Some s \<Rightarrow> s)
      in (data_richness + module_strength) / 2.0)"

definition determine_attention_level :: "real \<Rightarrow> real \<Rightarrow> AttentionLevel" where
  "determine_attention_level p coh =
     (let combined_score = (p + coh) / 2.0
      in if combined_score > 0.8 then CONSCIOUS
         else if combined_score > 0.6 then FOCUSED
         else if combined_score > 0.4 then PERIPHERAL
         else BACKGROUND)"

text \<open>
  The \<^verbatim>\<open>for\<close> loop of \<^verbatim>\<open>_update_attention_focus\<close> with its \<^verbatim>\<open>inserted\<close> flag: the new
  id goes before the first entry whose content has a strictly smaller priority, and to
  the end when there is none.
\<close>

fun focus_insert ::
  "(string \<times> WorkspaceContent) list \<Rightarrow> WorkspaceContent \<Rightarrow> string \<Rightarrow> string list \<Rightarrow> string list"
where
  "focus_insert cs content cid [] = [cid]"
| "focus_insert cs content cid (existing_id # rest) =
     (case map_of cs existing_id of
        Some existing_content \<Rightarrow>
          if priority content > priority existing_content then cid # existing_id # rest
          else existing_id # focus_insert cs content cid rest
      | None \<Rightarrow> existing_id # focus_insert cs content cid rest)"

definition update_attention_focus :: "GlobalWorkspaceSystem \<Rightarrow> string \<Rightarrow> GlobalWorkspaceSystem" where
  "update_attention_focus ws cid =
     (case map_of (workspace_contents ws) cid of
        None \<Rightarrow> ws
      | Some content \<Rightarrow>
          let focus0 = (if cid \<in> set (attention_focus ws) then remove1 cid (attention_focus ws)
                        else attention_focus ws);
              focus1 = (if attention_level content = CONSCIOUS then cid # focus0
                        else focus_insert (workspace_contents ws) content cid focus0);
              focus2 = (if length focus1 > 50 then take 50 focus1 else focus1)
          in ws\<lparr>attention_focus := focus2\<rparr>)"

text \<open>
  \<^verbatim>\<open>add_content\<close>. \<open>ms\<close> is the value of \<^verbatim>\<open>int(time.time() * 1000)\<close> and \<open>now\<close> that of
  \<^verbatim>\<open>datetime.now()\<close> during the call. With a dict for \<^verbatim>\<open>data\<close> and a float for
  \<^verbatim>\<open>priority\<close> nothing in the \<^verbatim>\<open>try\<close> body raises, so the id is returned.
  \<^verbatim>\<open>_broadcast_content\<close> only logs.
\<close>

definition add_content ::
  "GlobalWorkspaceSystem \<Rightarrow> int \<Rightarrow> real \<Rightarrow> string \<Rightarrow> string \<Rightarrow> py_dict \<Rightarrow> real
     \<Rightarrow> string \<times> GlobalWorkspaceSystem"
where
  "add_content ws ms now src ctype d p =
     (let cid = ''content_'' @ str_int ms;
          coh = calculate_coherence ws d src;
          lvl = determine_attention_level p coh;
          content = \<lparr>content_id = cid, source_module = src, content_type = ctype, data = d,
                     attention_level = lvl, timestamp = now, priority = p,
                     coherence_score = coh\<rparr>;
          ws1 = ws\<lparr>workspace_contents := AList.update cid content (workspace_contents ws)\<rparr>
      in (cid, update_attention_focus ws1 cid))"

definition get_conscious_contents :: "GlobalWorkspaceSystem \<Rightarrow> WorkspaceContent list" where
  "get_conscious_contents ws =
     filter (\<lambda>c. attention_level c = CONSCIOUS) (map snd (workspace_contents ws))"

text \<open>\<^verbatim>\<open>_update_consciousness_metrics\<close>; \<open>now\<close> is its \<^verbatim>\<open>datetime.now()\<close>.\<close>

definition update_consciousness_metrics :: "GlobalWorkspaceSystem \<Rightarrow> real \<Rightarrow> GlobalWorkspaceSystem" where
  "update_consciousness_metrics ws now =
     (if workspace_contents ws = [] then ws
      else
        let contents = map snd (workspace_contents ws);
            conscious_contents = filter (\<lambda>c. attention_level c = CONSCIOUS) contents;
            m0 = consciousness_metrics ws;
            m1 = (if conscious_contents \<noteq> []
                  then m0\<lparr>coherence_level :=
                            sum_list (map coherence_score conscious_contents)
                              / real (length conscious_contents)\<rparr>
                  else m0);
            unique_modules = remdups (map source_module conscious_contents);
            m2 = m1\<lparr>integration_depth := min 1.0 (real (length unique_modules) / 10.0)\<rparr>;
            m3 = (if attention_focus ws \<noteq> []
                  then
                    let focus_ages =
                          concat (map (\<lambda>cid. case map_of (workspace_contents ws) cid of
                                                 Some c \<Rightarrow> [now - timestamp c] | None \<Rightarrow> [])
                                      (take 5 (attention_focus ws)));
                        avg_age = (if focus_ages \<noteq> []
                                   then sum_list focus_ages / real (length focus_ages) else 0)
                    in m2\<lparr>attention_stability := min 1.0 (avg_age / 300.0)\<rparr>
                  else m2);
            content_types = remdups (map content_type contents);
            m4 = m3\<lparr>content_richness := min 1.0 (real (length content_types) / 15.0)\<rparr>
        in ws\<lparr>consciousness_metrics := m4\<rparr>)"

record content_summary =
  cs_content_id :: string
  cs_source_module :: string
  cs_content_type :: string
  cs_priority :: real
  cs_coherence_score :: real
  cs_timestamp :: real

definition summarize :: "WorkspaceContent \<Rightarrow> content_summary" where
  "summarize c =
     \<lparr>cs_content_id = content_id c, cs_source_module = source_module c,
      cs_content_type = content_type c, cs_priority = priority c,
      cs_coherence_score = coherence_score c, cs_timestamp = timestamp c\<rparr>"

text \<open>
  The dict returned by \<^verbatim>\<open>get_workspace_state\<close> (its own \<^verbatim>\<open>timestamp\<close> entry, a further
  reading of the clock, is left out).
\<close>

record workspace_state =
  st_consciousness_metrics :: workspace_metrics
  st_contents_by_attention :: "(AttentionLevel \<times> content_summary list) list"
  st_attention_focus :: "string list"
  st_module_connections :: "(string \<times> real) list"
  st_total_contents :: nat

definition get_workspace_state ::
  "GlobalWorkspaceSystem \<Rightarrow> real \<Rightarrow> (string + workspace_state) \<times> GlobalWorkspaceSystem"
where
  "get_workspace_state ws now =
     (if \<not> gw_initialized ws then (Inl ''Global workspace system not initialized'', ws)
      else
        let ws' = update_consciousness_metrics ws now;
            contents_by_attention =
              map (\<lambda>level.
                     (level,
                      map summarize
                        (filter (\<lambda>c. attention_level c = level)
                           (map snd (workspace_contents ws')))))
                  [BACKGROUND, PERIPHERAL, FOCUSED, CONSCIOUS]
        in (Inr \<lparr>st_consciousness_metrics = consciousness_metrics ws',
                 st_contents_by_attention = contents_by_attention,
                 st_attention_focus = take 10 (attention_focus ws'),
                 st_module_connections = module_connections ws',
                 st_total_contents = py_len (workspace_contents ws')\<rparr>,
            ws'))"

section \<open>Temporal consciousness (temporal\_consciousness.py)\<close>

datatype TemporalScale = IMMEDIATE | SHORT_TERM | MEDIUM_TERM | LONG_TERM | EXISTENTIAL

record TemporalEvent =
  event_id :: string
  event_timestamp :: real
  event_type :: string
  description :: string
  significance :: real
  emotional_valence :: real
  causal_relations :: "string list"
  narrative_context :: py_dict
  memory_strength :: real
  temporal_scale :: TemporalScale

definition scale_factor :: "TemporalScale \<Rightarrow> real" where
  "scale_factor sc =
     (case sc of IMMEDIATE \<Rightarrow> 1.0 | SHORT_TERM \<Rightarrow> 3600.0 | MEDIUM_TERM \<Rightarrow> 86400.0
      | LONG_TERM \<Rightarrow> 2592000.0 | EXISTENTIAL \<Rightarrow> 31536000.0)"

text \<open>
  \<^verbatim>\<open>TemporalEvent.calculate_temporal_distance\<close>. Every member of the enum is a key of
  \<^verbatim>\<open>scale_factors\<close>, so the default \<^verbatim>\<open>3600.0\<close> of the \<^verbatim>\<open>get\<close> is never taken.
\<close>

definition calculate_temporal_distance :: "TemporalEvent \<Rightarrow> real \<Rightarrow> real" where
  "calculate_temporal_distance e reference_time =
     (let time_diff = \<bar>event_timestamp e - reference_time\<bar>;
          normalized_distance = time_diff / scale_factor (temporal_scale e)
      in min 1.0 normalized_distance)"

definition is_temporally_relevant :: "TemporalEvent \<Rightarrow> real \<Rightarrow> real \<Rightarrow> bool" where
  "is_temporally_relevant e reference_time relevance_threshold =
     (let temporal_distance = calculate_temporal_distance e reference_time;
          relevance_score = (significance e * memory_strength e) / (1.0 + temporal_distance)
      in relevance_score > relevance_threshold)"

text \<open>The call with the default \<^verbatim>\<open>relevance_threshold = 0.5\<close>.\<close>

definition is_temporally_relevant_default :: "TemporalEvent \<Rightarrow> real \<Rightarrow> bool" where
  "is_temporally_relevant_default e reference_time = is_temporally_relevant e reference_time 0.5"

text \<open>
  The \<^verbatim>\<open>experience_data\<close> dict, by the keys the code reads; \<open>None\<close> is an absent key.
\<close>

record experience_data =
  xp_type :: "string option"
  xp_description :: "string option"
  xp_significance :: "real option"
  xp_emotional_valence :: "real option"
  xp_causal_relations :: "string list option"
  xp_narrative_context :: "py_dict option"
  xp_temporal_scale :: "TemporalScale option"

record temporal_metrics_rec =
  events_processed :: nat
  narratives_formed :: nat
  projections_made :: nat
  temporal_coherence :: real
  autobiographical_continuity :: real
  future_planning_depth :: real
  identity_coherence :: real

text \<open>
  The state of a \<^verbatim>\<open>TemporalConsciousnessSystem\<close>. Of \<^verbatim>\<open>present_moment_awareness\<close> only
  \<^verbatim>\<open>ongoing_experiences\<close> is kept: no method reads the other entries.
\<close>

record TemporalConsciousnessSystem =
  temporal_events :: "(string \<times> TemporalEvent) list"
  narrative_structures :: "(string \<times> py_value) list"
  temporal_projections :: "(string \<times> py_value) list"
  ongoing_experiences :: "string list"
  temporal_metrics :: temporal_metrics_rec
  tc_initialized :: bool

definition tc_init :: TemporalConsciousnessSystem where
  "tc_init =
     \<lparr>temporal_events = [], narrative_structures = [], temporal_projections = [],
      ongoing_experiences = [],
      temporal_metrics =
        \<lparr>events_processed = 0, narratives_formed = 0, projections_made = 0,
         temporal_coherence = 0, autobiographical_continuity = 0, future_planning_depth = 0,
         identity_coherence = 0\<rparr>,
      tc_initialized = False\<rparr>"

definition determine_temporal_scale :: "experience_data \<Rightarrow> TemporalScale" where
  "determine_temporal_scale xd =
     (case xp_temporal_scale xd of
        Some sc \<Rightarrow> sc
      | None \<Rightarrow>
          let exp_type = (case xp_type xd of None \<Rightarrow> ''experience'' | Some t \<Rightarrow> t)
          in if exp_type \<in> set [''initialization'', ''identity_formation''] then EXISTENTIAL
             else if exp_type \<in> set [''learning'', ''goal_formation''] then LONG_TERM
             else if exp_type \<in> set [''interaction'', ''decision''] then MEDIUM_TERM
             else SHORT_TERM)"

definition identify_causal_relations :: "experience_data \<Rightarrow> string list" where
  "identify_causal_relations xd = (case xp_causal_relations xd of None \<Rightarrow> [] | Some r \<Rightarrow> r)"

text \<open>
  \<^verbatim>\<open>process_temporal_experience\<close>. \<open>ms\<close> is \<^verbatim>\<open>int(time.time() * 1000)\<close>, \<open>now\<close> is
  \<^verbatim>\<open>datetime.now()\<close>. The event is stored under its id: an id that is already a key has
  its event replaced.
\<close>

definition process_temporal_experience ::
  "TemporalConsciousnessSystem \<Rightarrow> int \<Rightarrow> real \<Rightarrow> experience_data \<Rightarrow> real
     \<Rightarrow> string \<times> TemporalConsciousnessSystem"
where
  "process_temporal_experience tcs ms now xd sig =
     (let eid = ''temporal_event_'' @ str_int ms;
          temporal_event =
            \<lparr>event_id = eid, event_timestamp = now,
             event_type = (case xp_type xd of None \<Rightarrow> ''experience'' | Some t \<Rightarrow> t),
             description =
               (case xp_description xd of None \<Rightarrow> ''Temporal experience: '' @ eid | Some d \<Rightarrow> d),
             significance = sig,
             emotional_valence = (case xp_emotional_valence xd of None \<Rightarrow> 0.0 | Some v \<Rightarrow> v),
             causal_relations = identify_causal_relations xd,
             narrative_context = (case xp_narrative_context xd of None \<Rightarrow> [] | Some c \<Rightarrow> c),
             memory_strength = 1.0,
             temporal_scale = determine_temporal_scale xd\<rparr>
      in (eid,
          tcs\<lparr>temporal_events := AList.update eid temporal_event (temporal_events tcs),
               temporal_metrics :=
                 (temporal_metrics tcs)\<lparr>events_processed :=
                                            events_processed (temporal_metrics tcs) + 1\<rparr>,
               ongoing_experiences := ongoing_experiences tcs @ [eid]\<rparr>))"

text \<open>The call with the default \<^verbatim>\<open>significance = 0.5\<close>.\<close>

definition process_temporal_experience_default ::
  "TemporalConsciousnessSystem \<Rightarrow> int \<Rightarrow> real \<Rightarrow> experience_data
     \<Rightarrow> string \<times> TemporalConsciousnessSystem"
where
  "process_temporal_experience_default tcs ms now xd = process_temporal_experience tcs ms now xd 0.5"

definition initialize_present_moment :: "TemporalConsciousnessSystem \<Rightarrow> TemporalConsciousnessSystem" where
  "initialize_present_moment tcs = tcs\<lparr>ongoing_experiences := []\<rparr>"

definition foundational_events :: "experience_data list" where
  "foundational_events =
     [\<lparr>xp_type = Some ''initialization'',
       xp_description = Some ''System initialization and beginning of consciousness'',
       xp_significance = Some 1.0, xp_emotional_valence = None, xp_causal_relations = None,
       xp_narrative_context = None, xp_temporal_scale = Some EXISTENTIAL\<rparr>,
      \<lparr>xp_type = Some ''first_awareness'',
       xp_description = Some ''First moment of temporal awareness'',
       xp_significance = Some 0.9, xp_emotional_valence = None, xp_causal_relations = None,
       xp_narrative_context = None, xp_temporal_scale = Some LONG_TERM\<rparr>,
      \<lparr>xp_type = Some ''identity_formation_start'',
       xp_description = Some ''Beginning of identity formation process'',
       xp_significance = Some 0.8, xp_emotional_valence = None, xp_causal_relations = None,
       xp_narrative_context = None, xp_temporal_scale = Some LONG_TERM\<rparr>]"

text \<open>
  The loop of \<^verbatim>\<open>_create_foundational_events\<close>. \<open>clk i\<close> is the pair of clock readings
  (\<^verbatim>\<open>int(time.time() * 1000)\<close>, \<^verbatim>\<open>datetime.now()\<close>) of the \<open>i\<close>-th call. The subscript
  \<^verbatim>\<open>event_data['significance']\<close> raises on a dict without the key; the three literal
  dicts have it, so that branch is not taken.
\<close>

fun foundational_loop ::
  "TemporalConsciousnessSystem \<Rightarrow> (nat \<Rightarrow> int \<times> real) \<Rightarrow> nat \<Rightarrow> experience_data list
     \<Rightarrow> TemporalConsciousnessSystem"
where
  "foundational_loop tcs clk i [] = tcs"
| "foundational_loop tcs clk i (event_data # rest) =
     (case xp_significance event_data of
        None \<Rightarrow> tcs
      | Some sig \<Rightarrow>
          foundational_loop
            (snd (process_temporal_experience tcs (fst (clk i)) (snd (clk i)) event_data sig))
            clk (Suc i) rest)"

definition create_foundational_events ::
  "TemporalConsciousnessSystem \<Rightarrow> (nat \<Rightarrow> int \<times> real) \<Rightarrow> TemporalConsciousnessSystem"
where
  "create_foundational_events tcs clk = foundational_loop tcs clk 0 foundational_events"

text \<open>
  \<^verbatim>\<open>TemporalConsciousnessSystem.initialize\<close>: resets the present moment and records the
  foundational events on top of whatever \<^verbatim>\<open>temporal_events\<close> holds; returns \<^verbatim>\<open>True\<close>.
\<close>

definition tc_initialize ::
  "TemporalConsciousnessSystem \<Rightarrow> (nat \<Rightarrow> int \<times> real) \<Rightarrow> bool \<times> TemporalConsciousnessSystem"
where
  "tc_initialize tcs clk =
     (True, (create_foundational_events (initialize_present_moment tcs) clk)\<lparr>tc_initialized := True\<rparr>)"

definition update_temporal_metrics ::
  "TemporalConsciousnessSystem \<Rightarrow> real \<Rightarrow> TemporalConsciousnessSystem"
where
  "update_temporal_metrics tcs now =
     (if temporal_events tcs = [] then tcs
      else
        let recent_events =
              filter (\<lambda>e. now - event_timestamp e < 3600) (map snd (temporal_events tcs));
            m0 = temporal_metrics tcs;
            m1 = (if recent_events \<noteq> []
                  then m0\<lparr>temporal_coherence :=
                            sum_list (map significance recent_events)
                              / real (length recent_events)\<rparr>
                  else m0);
            m2 = m1\<lparr>autobiographical_continuity :=
                       min 1.0 (real (py_len (temporal_events tcs)) / 100),
                     future_planning_depth :=
                       min 1.0 (real (py_len (temporal_projections tcs)) / 50),
                     identity_coherence :=
                       min 1.0 (real (py_len (narrative_structures tcs)) / 20)\<rparr>
        in tcs\<lparr>temporal_metrics := m2\<rparr>)"

text \<open>
  \<^verbatim>\<open>sorted(events, key=lambda e: e.timestamp, reverse=True)[:n]\<close>: Python's sort is
  stable, and with \<^verbatim>\<open>reverse=True\<close> events of equal timestamp keep their order.
\<close>

definition recent_events :: "TemporalConsciousnessSystem \<Rightarrow> nat \<Rightarrow> TemporalEvent list" where
  "recent_events tcs n =
     take n (rev (sort_key event_timestamp (rev (map snd (temporal_events tcs)))))"

record event_summary =
  es_event_id :: string
  es_type :: string
  es_description :: string
  es_significance :: real
  es_temporal_scale :: TemporalScale
  es_time_ago :: real

definition summarize_event :: "real \<Rightarrow> TemporalEvent \<Rightarrow> event_summary" where
  "summarize_event now e =
     \<lparr>es_event_id = event_id e, es_type = event_type e,
      es_description =
        (if length (description e) > 100 then take 100 (description e) @ ''...''
         else description e),
      es_significance = significance e, es_temporal_scale = temporal_scale e,
      es_time_ago = now - event_timestamp e\<rparr>"

record temporal_state =
  tst_ongoing_experiences :: "string list"
  tst_recent_events :: "event_summary list"
  tst_temporal_metrics :: temporal_metrics_rec

text \<open>\<^verbatim>\<open>get_temporal_consciousness_state\<close>: the twenty most recent events.\<close>

definition get_temporal_consciousness_state ::
  "TemporalConsciousnessSystem \<Rightarrow> real
     \<Rightarrow> (string + temporal_state) \<times> TemporalConsciousnessSystem"
where
  "get_temporal_consciousness_state tcs now =
     (if \<not> tc_initialized tcs then (Inl ''Temporal consciousness system not initialized'', tcs)
      else
        let tcs' = update_temporal_metrics tcs now
        in (Inr \<lparr>tst_ongoing_experiences = ongoing_experiences tcs',
                 tst_recent_events = map (summarize_event now) (recent_events tcs' 20),
                 tst_temporal_metrics = temporal_metrics tcs'\<rparr>,
            tcs'))"

section \<open>The orchestrating core (consciousness\_core.py)\<close>

text \<open>
  An entry of \<^verbatim>\<open>activity_logs\<close>, without its \<^verbatim>\<open>uuid4\<close> id and its timestamp.
\<close>

record activity =
  act_module_id :: string
  act_activity_type :: string
  act_description :: string
  act_severity :: string

text \<open>
  The state of a \<^verbatim>\<open>ConsciousnessCore\<close>: the two stores, the status string, the
  \<^verbatim>\<open>initialized\<close> flag and the activity log. The five other modules, the module statuses,
  the system metrics, the safety alerts and the monitoring thread with its flag do not reach
  the two stores and are left out.
\<close>

record ConsciousnessCore =
  temporal_consciousness :: TemporalConsciousnessSystem
  global_workspace :: GlobalWorkspaceSystem
  system_status :: string
  activity_logs :: "activity list"
  core_initialized :: bool

definition core_init :: ConsciousnessCore where
  "core_init =
     \<lparr>temporal_consciousness = tc_init, global_workspace = gw_init,
      system_status = ''inactive'', activity_logs = [], core_initialized = False\<rparr>"

definition log_activity ::
  "ConsciousnessCore \<Rightarrow> string \<Rightarrow> string \<Rightarrow> string \<Rightarrow> string \<Rightarrow> ConsciousnessCore"
where
  "log_activity core module_id activity_type descr severity =
     (let logs = activity_logs core @
                   [\<lparr>act_module_id = module_id, act_activity_type = activity_type,
                     act_description = descr, act_severity = severity\<rparr>]
      in core\<lparr>activity_logs :=
                (if length logs > 1000 then drop (length logs - 1000) logs else logs)\<rparr>)"

text \<open>
  \<^verbatim>\<open>ConsciousnessCore.initialize\<close> calls \<^verbatim>\<open>initialize\<close> of every module. The two stores
  return \<^verbatim>\<open>True\<close>, so \<^verbatim>\<open>successful_modules\<close> is not zero and the status becomes
  \<^verbatim>\<open>'active'\<close>; \<open>n_ok\<close> is the number of modules that returned \<^verbatim>\<open>True\<close>, printed in the
  log entry.
\<close>

definition core_initialize ::
  "ConsciousnessCore \<Rightarrow> (nat \<Rightarrow> int \<times> real) \<Rightarrow> nat \<Rightarrow> bool \<times> ConsciousnessCore"
where
  "core_initialize core clk n_ok =
     (let (r_tc, tcs) = tc_initialize (temporal_consciousness core) clk;
          (r_gw, ws) = gw_initialize (global_workspace core);
          core1 = core\<lparr>temporal_consciousness := tcs, global_workspace := ws,
                       system_status := ''active''\<rparr>;
          core2 = log_activity core1 ''system'' ''initialization''
                    (''Consciousness Core initialized with '' @ str_nat n_ok @ ''/7 modules'')
                    ''info''
      in (True, core2\<lparr>core_initialized := True\<rparr>))"

text \<open>
  \<^verbatim>\<open>emergency_stop\<close> calls \<^verbatim>\<open>cleanup\<close> on the modules that have one. Neither
  \<^verbatim>\<open>TemporalConsciousnessSystem\<close> nor \<^verbatim>\<open>GlobalWorkspaceSystem\<close> defines \<^verbatim>\<open>cleanup\<close>, so
  the two stores are not touched.
\<close>

definition emergency_stop :: "ConsciousnessCore \<Rightarrow> bool \<times> ConsciousnessCore" where
  "emergency_stop core =
     (let core1 = core\<lparr>system_status := ''emergency_stop''\<rparr>
      in (True, log_activity core1 ''system'' ''emergency_stop'' ''Emergency stop activated''
                  ''critical''))"

definition resume_system ::
  "ConsciousnessCore \<Rightarrow> (nat \<Rightarrow> int \<times> real) \<Rightarrow> nat \<Rightarrow> bool \<times> ConsciousnessCore"
where
  "resume_system core clk n_ok =
     (if system_status core = ''emergency_stop'' then core_initialize core clk n_ok
      else
        let core1 = core\<lparr>system_status := ''active''\<rparr>
        in (True, log_activity core1 ''system'' ''resume'' ''System resumed'' ''info''))"

definition pause_system :: "ConsciousnessCore \<Rightarrow> bool \<times> ConsciousnessCore" where
  "pause_system core =
     (let core1 = core\<lparr>system_status := ''paused''\<rparr>
      in (True, log_activity core1 ''system'' ''pause'' ''System paused'' ''info''))"

text \<open>The \<^verbatim>\<open>results\<close> dict of \<^verbatim>\<open>process_experience\<close>.\<close>

record experience_results =
  res_temporal_event_id :: string

text \<open>
  \<^verbatim>\<open>process_experience\<close>. The value is \<open>Inl msg\<close> for a returned \<^verbatim>\<open>{'error': msg}\<close>.
  When the system is active the temporal event is recorded first; the next statement calls
  \<^verbatim>\<open>self.global_workspace.update_workspace\<close>, a method \<^verbatim>\<open>GlobalWorkspaceSystem\<close> does not
  define, so an \<^verbatim>\<open>AttributeError\<close> is raised, the handler logs it and returns its text.
\<close>

definition update_workspace_missing :: string where
  "update_workspace_missing =
     [CHR 0x27] @ ''GlobalWorkspaceSystem'' @ [CHR 0x27] @ '' object has no attribute ''
       @ [CHR 0x27] @ ''update_workspace'' @ [CHR 0x27]"

definition process_experience ::
  "ConsciousnessCore \<Rightarrow> int \<Rightarrow> real \<Rightarrow> experience_data
     \<Rightarrow> (string + experience_results) \<times> ConsciousnessCore"
where
  "process_experience core ms now xd =
     (if \<not> core_initialized core \<or> system_status core \<noteq> ''active''
      then (Inl ''System not active'', core)
      else
        let (temporal_result, tcs) =
              process_temporal_experience_default (temporal_consciousness core) ms now xd;
            core1 = core\<lparr>temporal_consciousness := tcs\<rparr>;
            core2 = log_activity core1 ''core'' ''experience_processing''
                      (''Error processing experience: '' @ update_workspace_missing) ''error''
        in (Inl update_workspace_missing, core2))"

text \<open>What the outer interface reads from the two stores.\<close>

definition total_contents :: "ConsciousnessCore \<Rightarrow> nat" where
  "total_contents core = py_len (workspace_contents (global_workspace core))"

section \<open>Call sequences\<close>

text \<open>
  The public calls of a workspace and of a temporal store as data, and the state after a
  sequence of calls made one after the other, so that a property of every reachable state
  is a property of \<open>gw_run gw_init ops\<close> or of \<open>tc_run tc_init ops\<close> for every \<open>ops\<close>.
\<close>

datatype gw_op =
  Initialize
| AddContent int real string string py_dict real
| GetWorkspaceState real

fun gw_step :: "GlobalWorkspaceSystem \<Rightarrow> gw_op \<Rightarrow> GlobalWorkspaceSystem" where
  "gw_step ws Initialize = snd (gw_initialize ws)"
| "gw_step ws (AddContent ms now src ctype d p) = snd (add_content ws ms now src ctype d p)"
| "gw_step ws (GetWorkspaceState now) = snd (get_workspace_state ws now)"

definition gw_run :: "GlobalWorkspaceSystem \<Rightarrow> gw_op list \<Rightarrow> GlobalWorkspaceSystem" where
  "gw_run ws ops = foldl gw_step ws ops"

datatype tc_op =
  TcInitialize "nat \<Rightarrow> int \<times> real"
| ProcessTemporalExperience int real experience_data real
| GetTemporalState real

fun tc_step :: "TemporalConsciousnessSystem \<Rightarrow> tc_op \<Rightarrow> TemporalConsciousnessSystem" where
  "tc_step tcs (TcInitialize clk) = snd (tc_initialize tcs clk)"
| "tc_step tcs (ProcessTemporalExperience ms now xd sig) =
     snd (process_temporal_experience tcs ms now xd sig)"
| "tc_step tcs (GetTemporalState now) = snd (get_temporal_consciousness_state tcs now)"

definition tc_run :: "TemporalConsciousnessSystem \<Rightarrow> tc_op list \<Rightarrow> TemporalConsciousnessSystem" where
  "tc_run tcs ops = foldl tc_step tcs ops"

section \<open>Observations and predicates of the statements\<close>

text \<open>
  An entry of the focus ordering has a lower priority than \<open>p\<close> when its id is a key of the
  contents and the stored priority is strictly smaller: the test of the insertion loop.
\<close>

definition has_lower_priority :: "(string \<times> WorkspaceContent) list \<Rightarrow> real \<Rightarrow> string \<Rightarrow> bool" where
  "has_lower_priority cs p existing_id =
     (case map_of cs existing_id of Some existing_content \<Rightarrow> p > priority existing_content
      | None \<Rightarrow> False)"

text \<open>The attention level stored under an id, if any.\<close>

definition level_of :: "GlobalWorkspaceSystem \<Rightarrow> string \<Rightarrow> AttentionLevel option" where
  "level_of ws cid = map_option attention_level (map_of (workspace_contents ws) cid)"

text \<open>A payload with ten keys, of data richness 1, for concrete runs.\<close>

definition ten_keys :: py_dict where
  "ten_keys =
     [(''a'', PyInt 0), (''b'', PyInt 1), (''c'', PyInt 2), (''d'', PyInt 3), (''e'', PyInt 4),
      (''f'', PyInt 5), (''g'', PyInt 6), (''h'', PyInt 7), (''i'', PyInt 8), (''j'', PyInt 9)]"

text \<open>The \<^verbatim>\<open>coherence_level\<close> that a snapshot taken at \<open>now\<close> reports, if it reports one.\<close>

definition reported_coherence_level :: "GlobalWorkspaceSystem \<Rightarrow> real \<Rightarrow> real option" where
  "reported_coherence_level ws now =
     (case fst (get_workspace_state ws now) of
        Inl err \<Rightarrow> None
      | Inr st \<Rightarrow> Some (coherence_level (st_consciousness_metrics st)))"

text \<open>Every stored event has the memory strength 1.0 it was created with.\<close>

definition full_strength :: "TemporalConsciousnessSystem \<Rightarrow> bool" where
  "full_strength tcs = list_all (\<lambda>e. memory_strength e = 1) (map snd (temporal_events tcs))"

text \<open>
  A call sequence without id collisions: every admission is made at a clock reading whose
  id is not yet a key of the contents.
\<close>

fun fresh_ids :: "GlobalWorkspaceSystem \<Rightarrow> gw_op list \<Rightarrow> bool" where
  "fresh_ids ws [] = True"
| "fresh_ids ws (op # ops) =
     ((case op of
         AddContent ms now src ctype d p \<Rightarrow>
           ''content_'' @ str_int ms \<notin> fst ` set (workspace_contents ws)
       | _ \<Rightarrow> True)
      \<and> fresh_ids (gw_step ws op) ops)"

section \<open>Concrete runs\<close>

text \<open>
  States reached by concrete calls, used to evaluate the operations: an initialized
  workspace, then admissions at the clock readings 1000, 1001 and 1002 milliseconds.
\<close>

definition ws_ready :: GlobalWorkspaceSystem where
  "ws_ready = snd (gw_initialize gw_init)"

definition ws_a :: GlobalWorkspaceSystem where
  "ws_a = snd (add_content ws_ready 1000 0 ''temporal_consciousness'' ''event'' ten_keys 0.75)"

definition ws_ab :: GlobalWorkspaceSystem where
  "ws_ab = snd (add_content ws_a 1001 1 ''temporal_consciousness'' ''event'' ten_keys 0.9)"

definition ws_abc :: GlobalWorkspaceSystem where
  "ws_abc = snd (add_content ws_ab 1002 2 ''moduleA'' ''event'' [(''x'', PyInt 1)] 0.8)"

definition ws_a_then_peripheral :: GlobalWorkspaceSystem where
  "ws_a_then_peripheral =
     snd (add_content ws_a 1001 1 ''moduleA'' ''event'' [(''x'', PyInt 1)] 0.9)"

text \<open>
  A snapshot after the first admission, then a second admission whose clock reading is
  still 1000 milliseconds.
\<close>

definition ws_a_seen :: GlobalWorkspaceSystem where
  "ws_a_seen = snd (get_workspace_state ws_a 1)"

definition ws_same_ms :: GlobalWorkspaceSystem where
  "ws_same_ms = snd (add_content ws_a_seen 1000 2 ''moduleA'' ''note'' [] 0.1)"

text \<open>
  A core that is initialized at the clock readings 1000, 1001, 1002 milliseconds, then
  paused, or stopped and resumed at the readings 2000, 2001, 2002; and an experience.
\<close>

definition core_ready :: ConsciousnessCore where
  "core_ready = snd (core_initialize core_init (\<lambda>i. (1000 + int i, real i)) 7)"

definition core_paused :: ConsciousnessCore where
  "core_paused = snd (pause_system core_ready)"

definition core_stopped :: ConsciousnessCore where
  "core_stopped = snd (emergency_stop core_ready)"

definition core_resumed :: ConsciousnessCore where
  "core_resumed = snd (resume_system core_stopped (\<lambda>i. (2000 + int i, 10 + real i)) 7)"

definition an_experience :: experience_data where
  "an_experience =
     \<lparr>xp_type = Some ''interaction'', xp_description = Some ''a greeting'',
      xp_significance = None, xp_emotional_valence = None, xp_causal_relations = None,
      xp_narrative_context = None, xp_temporal_scale = None\<rparr>"

text \<open>
  An event of significance 0.9 recorded at time 0 on the short-term scale, as
  \<^verbatim>\<open>process_temporal_experience\<close> stores it.
\<close>

definition an_event :: TemporalEvent where
  "an_event =
     \<lparr>event_id = ''temporal_event_0'', event_timestamp = 0, event_type = ''experience'',
      description = ''Temporal experience: temporal_event_0'', significance = 0.9,
      emotional_valence = 0, causal_relations = [], narrative_context = [],
      memory_strength = 1, temporal_scale = SHORT_TERM\<rparr>"

text \<open>
  An item stored as \<open>PERIPHERAL\<close> with priority 0.9, then an item stored as \<open>CONSCIOUS\<close>
  with priority 0.75, then a second \<open>PERIPHERAL\<close> item with priority 0.9.
\<close>

definition ws_p :: GlobalWorkspaceSystem where
  "ws_p = snd (add_content ws_ready 1000 0 ''moduleA'' ''event'' [(''x'', PyInt 1)] 0.9)"

definition ws_pc :: GlobalWorkspaceSystem where
  "ws_pc = snd (add_content ws_p 1001 1 ''temporal_consciousness'' ''event'' ten_keys 0.75)"

definition ws_pcp :: GlobalWorkspaceSystem where
  "ws_pcp = snd (add_content ws_pc 1002 2 ''moduleA'' ''event'' [(''x'', PyInt 1)] 0.9)"

text \<open>
  An experience on the immediate scale, and the event that \<^verbatim>\<open>process_temporal_experience\<close>
  stores for it at time 0 when it is called with the significance \<open>-0.5\<close>.
\<close>

definition an_immediate_experience :: experience_data where
  "an_immediate_experience =
     \<lparr>xp_type = Some ''interaction'', xp_description = Some ''a greeting'',
      xp_significance = None, xp_emotional_valence = None, xp_causal_relations = None,
      xp_narrative_context = None, xp_temporal_scale = Some IMMEDIATE\<rparr>"

definition a_negative_event :: TemporalEvent where
  "a_negative_event =
     \<lparr>event_id = ''temporal_event_0'', event_timestamp = 0, event_type = ''interaction'',
      description = ''a greeting'', significance = - 0.5, emotional_valence = 0,
      causal_relations = [], narrative_context = [], memory_strength = 1,
      temporal_scale = IMMEDIATE\<rparr>"

text \<open>
  An event with a negative memory strength. The constructor of the dataclass accepts it;
  no call of the store creates one.
\<close>

definition a_fading_event :: TemporalEvent where
  "a_fading_event = an_event\<lparr>significance := - 1, memory_strength := - 1\<rparr>"

section \<open>Properties of the workspace\<close>

lemma map_of_add_content:
  "map_of (workspace_contents (snd (add_content ws ms now src ctype d p)))
     (fst (add_content ws ms now src ctype d p))
   = Some \<lparr>content_id = ''content_'' @ str_int ms, source_module = src, content_type = ctype,
            data = d,
            attention_level = determine_attention_level p (calculate_coherence ws d src),
            timestamp = now, priority = p,
            coherence_score = calculate_coherence ws d src\<rparr>"
  by (simp add: add_content_def update_attention_focus_def Let_def update_conv')

text \<open>
  Claim C6. Admitting an item of the unknown producer \<open>moduleA\<close> with a one-key payload and
  priority 0.9 gives coherence \<open>(min 1 (1/10) + 0.5) / 2 = 0.3\<close> and the combined score
  \<open>(0.9 + 0.3) / 2 = 0.6\<close>, and the stored item is \<open>PERIPHERAL\<close>, on a fresh workspace and on
  an initialized one. The thresholds are strict. When priority and coherence are the same
  number \<open>t\<close>, the combined score \<open>(t + t) / 2\<close> is \<open>t\<close> itself (also in binary floating
  point, where doubling and halving are exact): a combined score of exactly 0.8 is
  \<open>FOCUSED\<close> and not \<open>CONSCIOUS\<close>, exactly 0.6 is \<open>PERIPHERAL\<close> and not \<open>FOCUSED\<close>, exactly
  0.4 is \<open>BACKGROUND\<close> and not \<open>PERIPHERAL\<close>, and any score \<open>t\<close> is classified by the strict
  comparisons of \<open>t\<close> with 0.8, 0.6 and 0.4.
\<close>

theorem moduleA_scenario_peripheral:
  "calculate_coherence gw_init [(''x'', PyInt 1)] ''moduleA'' = 0.3
   \<and> calculate_coherence (snd (gw_initialize gw_init)) [(''x'', PyInt 1)] ''moduleA'' = 0.3
   \<and> determine_attention_level 0.9 0.3 = PERIPHERAL
   \<and> map_option attention_level
        (map_of
           (workspace_contents
              (snd (add_content (snd (gw_initialize gw_init)) ms now ''moduleA'' ''event''
                      [(''x'', PyInt 1)] 0.9)))
           (fst (add_content (snd (gw_initialize gw_init)) ms now ''moduleA'' ''event''
                   [(''x'', PyInt 1)] 0.9)))
       = Some PERIPHERAL
   \<and> determine_attention_level 0.8 0.8 = FOCUSED
   \<and> determine_attention_level 0.6 0.6 = PERIPHERAL
   \<and> determine_attention_level 0.4 0.4 = BACKGROUND
   \<and> determine_attention_level t t =
       (if t > 0.8 then CONSCIOUS else if t > 0.6 then FOCUSED
        else if t > 0.4 then PERIPHERAL else BACKGROUND)"
proof -
  have a: "calculate_coherence gw_init [(''x'', PyInt 1)] ''moduleA'' = 0.3"
    by (simp add: calculate_coherence_def gw_init_def py_len_def)
  have b: "calculate_coherence (snd (gw_initialize gw_init)) [(''x'', PyInt 1)] ''moduleA'' = 0.3"
    by (simp add: calculate_coherence_def gw_init_def py_len_def gw_initialize_def
        initialize_module_connections_def connected_modules_def)
  have c: "determine_attention_level 0.9 0.3 = PERIPHERAL"
    by (simp add: determine_attention_level_def)
  have d: "determine_attention_level 0.8 0.8 = FOCUSED"
    "determine_attention_level 0.6 0.6 = PERIPHERAL"
    "determine_attention_level 0.4 0.4 = BACKGROUND"
    "determine_attention_level t t =
       (if t > 0.8 then CONSCIOUS else if t > 0.6 then FOCUSED
        else if t > 0.4 then PERIPHERAL else BACKGROUND)"
    by (simp_all add: determine_attention_level_def)
  have e: "map_option attention_level
        (map_of
           (workspace_contents
              (snd (add_content (snd (gw_initialize gw_init)) ms now ''moduleA'' ''event''
                      [(''x'', PyInt 1)] 0.9)))
           (fst (add_content (snd (gw_initialize gw_init)) ms now ''moduleA'' ''event''
                   [(''x'', PyInt 1)] 0.9)))
       = Some PERIPHERAL"
    unfolding map_of_add_content by (simp add: b c)
  from a b c d e show ?thesis by blast
qed

lemma fst_add_content: "fst (add_content ws ms now src ctype d p) = ''content_'' @ str_int ms"
  by (simp add: add_content_def Let_def)

lemma workspace_contents_add_content:
  "workspace_contents (snd (add_content ws ms now src ctype d p)) =
     AList.update (''content_'' @ str_int ms)
       \<lparr>content_id = ''content_'' @ str_int ms, source_module = src, content_type = ctype,
        data = d, attention_level = determine_attention_level p (calculate_coherence ws d src),
        timestamp = now, priority = p, coherence_score = calculate_coherence ws d src\<rparr>
       (workspace_contents ws)"
  by (simp add: add_content_def update_attention_focus_def Let_def update_conv')

text \<open>
  The focus ordering after an admission: the content is found under its id, so the early
  \<^verbatim>\<open>return\<close> is not taken, and \<^verbatim>\<open>list.remove\<close> of an id that is absent is skipped.
\<close>

lemma attention_focus_add_content:
  "attention_focus (snd (add_content ws ms now src ctype d p)) =
     (let cid = ''content_'' @ str_int ms;
          coh = calculate_coherence ws d src;
          content = \<lparr>content_id = cid, source_module = src, content_type = ctype, data = d,
                     attention_level = determine_attention_level p coh, timestamp = now,
                     priority = p, coherence_score = coh\<rparr>;
          focus0 = remove1 cid (attention_focus ws);
          focus1 = (if determine_attention_level p coh = CONSCIOUS then cid # focus0
                    else focus_insert (AList.update cid content (workspace_contents ws))
                           content cid focus0)
      in take 50 focus1)"
  by (simp add: add_content_def update_attention_focus_def Let_def update_conv' remove1_idem)

lemma length_focus_add_content:
  "length (attention_focus (snd (add_content ws ms now src ctype d p))) \<le> 50"
  by (simp add: attention_focus_add_content Let_def)

lemma attention_focus_gw_initialize [simp]:
  "attention_focus (snd (gw_initialize ws)) = attention_focus ws"
  by (simp add: gw_initialize_def initialize_module_connections_def)

lemma attention_focus_get_workspace_state [simp]:
  "attention_focus (snd (get_workspace_state ws now)) = attention_focus ws"
  by (simp add: get_workspace_state_def update_consciousness_metrics_def Let_def)

lemma length_focus_gw_step:
  "length (attention_focus ws) \<le> 50 \<Longrightarrow> length (attention_focus (gw_step ws op)) \<le> 50"
  by (cases op) (simp_all add: length_focus_add_content)

lemma length_focus_gw_run:
  "length (attention_focus ws) \<le> 50 \<Longrightarrow> length (attention_focus (gw_run ws ops)) \<le> 50"
  unfolding gw_run_def
  by (induction ops arbitrary: ws) (simp_all add: length_focus_gw_step)

text \<open>
  Claim C10. After any sequence of calls on a new workspace (admissions, also mixed with
  initializations and snapshots) the focus ordering has at most 50 entries; and a single
  admission leaves at most 50 entries whatever the workspace was before.
\<close>

theorem focus_never_exceeds_50:
  "length (attention_focus (gw_run gw_init ops)) \<le> 50
   \<and> length (attention_focus (snd (add_content ws ms now src ctype d p))) \<le> 50"
  using length_focus_gw_run [of gw_init ops] length_focus_add_content [of ws ms now src ctype d p]
  by (simp add: gw_init_def)

lemma focus_insert_takeWhile:
  "focus_insert cs content cid xs =
     takeWhile (\<lambda>e. \<not> has_lower_priority cs (priority content) e) xs
       @ cid # dropWhile (\<lambda>e. \<not> has_lower_priority cs (priority content) e) xs"
  by (induction xs) (auto simp: has_lower_priority_def split: option.splits)

text \<open>
  Claim C3, as amended. An admission with any priority, inside \<open>[0,1]\<close> or not, succeeds
  and returns the new id, which is not the empty string of the failure path. The code has
  no clamping: the priority is stored as it was given, the attention level is computed
  from the given value, and the given value is the one that the focus ordering compares
  with the stored priorities of its entries when it places the new id.
\<close>

theorem admission_keeps_raw_priority:
  "fst (add_content ws ms now src ctype d p) = ''content_'' @ str_int ms
   \<and> fst (add_content ws ms now src ctype d p) \<noteq> ''''
   \<and> map_option priority
        (map_of (workspace_contents (snd (add_content ws ms now src ctype d p)))
           (fst (add_content ws ms now src ctype d p))) = Some p
   \<and> map_option attention_level
        (map_of (workspace_contents (snd (add_content ws ms now src ctype d p)))
           (fst (add_content ws ms now src ctype d p)))
       = Some (determine_attention_level p (calculate_coherence ws d src))
   \<and> attention_focus (snd (add_content ws ms now src ctype d p)) =
       take 50
         (if determine_attention_level p (calculate_coherence ws d src) = CONSCIOUS
          then fst (add_content ws ms now src ctype d p)
                 # remove1 (fst (add_content ws ms now src ctype d p)) (attention_focus ws)
          else takeWhile
                 (\<lambda>e. \<not> has_lower_priority
                            (workspace_contents (snd (add_content ws ms now src ctype d p))) p e)
                 (remove1 (fst (add_content ws ms now src ctype d p)) (attention_focus ws))
               @ fst (add_content ws ms now src ctype d p)
                 # dropWhile
                     (\<lambda>e. \<not> has_lower_priority
                                (workspace_contents (snd (add_content ws ms now src ctype d p))) p e)
                     (remove1 (fst (add_content ws ms now src ctype d p)) (attention_focus ws)))"
proof -
  have i: "fst (add_content ws ms now src ctype d p) = ''content_'' @ str_int ms"
    by (rule fst_add_content)
  have n: "fst (add_content ws ms now src ctype d p) \<noteq> ''''"
    unfolding i by simp
  have pr: "map_option priority
        (map_of (workspace_contents (snd (add_content ws ms now src ctype d p)))
           (fst (add_content ws ms now src ctype d p))) = Some p"
    unfolding map_of_add_content by simp
  have lv: "map_option attention_level
        (map_of (workspace_contents (snd (add_content ws ms now src ctype d p)))
           (fst (add_content ws ms now src ctype d p)))
       = Some (determine_attention_level p (calculate_coherence ws d src))"
    unfolding map_of_add_content by simp
  have fo: "attention_focus (snd (add_content ws ms now src ctype d p)) =
       take 50
         (if determine_attention_level p (calculate_coherence ws d src) = CONSCIOUS
          then fst (add_content ws ms now src ctype d p)
                 # remove1 (fst (add_content ws ms now src ctype d p)) (attention_focus ws)
          else takeWhile
                 (\<lambda>e. \<not> has_lower_priority
                            (workspace_contents (snd (add_content ws ms now src ctype d p))) p e)
                 (remove1 (fst (add_content ws ms now src ctype d p)) (attention_focus ws))
               @ fst (add_content ws ms now src ctype d p)
                 # dropWhile
                     (\<lambda>e. \<not> has_lower_priority
                                (workspace_contents (snd (add_content ws ms now src ctype d p))) p e)
                     (remove1 (fst (add_content ws ms now src ctype d p)) (attention_focus ws)))"
    unfolding i
    by (simp add: attention_focus_add_content Let_def focus_insert_takeWhile
        workspace_contents_add_content)
  from i n pr lv fo show ?thesis by blast
qed

text \<open>
  Claim C3 as stated fails: admitted with priority 5, the item is stored with priority 5,
  which is not in \<open>[0,1]\<close>, and is classified \<open>CONSCIOUS\<close> from the raw value, where the
  clamped priority 1 would have given \<open>FOCUSED\<close>.
\<close>

theorem priority_not_clamped:
  "\<not> (\<exists>q. map_option priority
              (map_of (workspace_contents
                         (snd (add_content gw_init 1000 0 ''moduleA'' ''event'' [] 5)))
                 (fst (add_content gw_init 1000 0 ''moduleA'' ''event'' [] 5))) = Some q
            \<and> 0 \<le> q \<and> q \<le> 1)
   \<and> map_option attention_level
        (map_of (workspace_contents
                   (snd (add_content gw_init 1000 0 ''moduleA'' ''event'' [] 5)))
           (fst (add_content gw_init 1000 0 ''moduleA'' ''event'' [] 5))) = Some CONSCIOUS
   \<and> determine_attention_level (min 1 (max 0 5))
        (calculate_coherence gw_init [] ''moduleA'') = FOCUSED"
  unfolding map_of_add_content
  by (simp add: determine_attention_level_def calculate_coherence_def gw_init_def py_len_def)

text \<open>
  Claim C5, as amended. Let an admission return \<open>cid1\<close>, and a second admission right
  after it return \<open>cid2\<close>.
  \<^item> If the first item is stored as \<open>CONSCIOUS\<close>, its id is put at position 0, ahead of
    the earlier ordering (from which an older occurrence of the id is removed).
  \<^item> Otherwise its id is put immediately before the first entry of the ordering, read
    from the head, whose stored priority is strictly lower than its own, whatever the
    attention level of that entry, and at the end when there is no such entry; the
    other entries keep their order. The entries ahead of the new id are thus the leading
    run of entries none of which has a strictly lower priority. An older entry of equal
    priority stays ahead only when it lies in that run: behind an entry of lower
    priority it is overtaken, so the first-inserted item does not always win a tie.
  \<^item> In both cases the ordering is then cut to its first 50 entries.
  \<^item> If both items are stored as \<open>CONSCIOUS\<close> under different ids, the ordering starts
    with the second id followed by the first.
\<close>

theorem focus_update_rule:
  assumes a1: "add_content ws ms1 now1 src1 ct1 d1 p1 = (cid1, ws1)"
      and a2: "add_content ws1 ms2 now2 src2 ct2 d2 p2 = (cid2, ws2)"
  shows "(level_of ws1 cid1 = Some CONSCIOUS \<longrightarrow>
            attention_focus ws1 = take 50 (cid1 # remove1 cid1 (attention_focus ws)))
       \<and> (level_of ws1 cid1 \<noteq> Some CONSCIOUS \<longrightarrow>
            attention_focus ws1 =
              take 50
                (takeWhile (\<lambda>e. \<not> has_lower_priority (workspace_contents ws1) p1 e)
                   (remove1 cid1 (attention_focus ws))
                 @ cid1 #
                 dropWhile (\<lambda>e. \<not> has_lower_priority (workspace_contents ws1) p1 e)
                   (remove1 cid1 (attention_focus ws))))
       \<and> (level_of ws1 cid1 = Some CONSCIOUS \<and> level_of ws2 cid2 = Some CONSCIOUS
            \<and> cid1 \<noteq> cid2 \<longrightarrow>
            take 2 (attention_focus ws2) = [cid2, cid1])"
proof -
  have c1: "cid1 = ''content_'' @ str_int ms1"
    and w1: "ws1 = snd (add_content ws ms1 now1 src1 ct1 d1 p1)"
    using a1 fst_add_content [of ws ms1 now1 src1 ct1 d1 p1] by auto
  have c2: "cid2 = ''content_'' @ str_int ms2"
    and w2: "ws2 = snd (add_content ws1 ms2 now2 src2 ct2 d2 p2)"
    using a2 fst_add_content [of ws1 ms2 now2 src2 ct2 d2 p2] by auto
  have l1: "level_of ws1 cid1 = Some (determine_attention_level p1 (calculate_coherence ws d1 src1))"
    unfolding level_of_def w1 c1 by (simp add: workspace_contents_add_content update_conv')
  have l2: "level_of ws2 cid2 = Some (determine_attention_level p2 (calculate_coherence ws1 d2 src2))"
    unfolding level_of_def w2 c2 by (simp add: workspace_contents_add_content update_conv')
  have f1: "level_of ws1 cid1 = Some CONSCIOUS \<Longrightarrow>
            attention_focus ws1 = take 50 (cid1 # remove1 cid1 (attention_focus ws))"
    using l1 unfolding w1 c1 by (simp add: attention_focus_add_content Let_def)
  have f2: "level_of ws1 cid1 \<noteq> Some CONSCIOUS \<Longrightarrow>
            attention_focus ws1 =
              take 50
                (takeWhile (\<lambda>e. \<not> has_lower_priority (workspace_contents ws1) p1 e)
                   (remove1 cid1 (attention_focus ws))
                 @ cid1 #
                 dropWhile (\<lambda>e. \<not> has_lower_priority (workspace_contents ws1) p1 e)
                   (remove1 cid1 (attention_focus ws)))"
    using l1 unfolding w1 c1
    by (simp add: attention_focus_add_content Let_def focus_insert_takeWhile
        workspace_contents_add_content)
  have f3: "take 2 (attention_focus ws2) = [cid2, cid1]"
    if h: "level_of ws1 cid1 = Some CONSCIOUS" "level_of ws2 cid2 = Some CONSCIOUS"
      "cid1 \<noteq> cid2"
  proof -
    have "attention_focus ws1 = take 50 (cid1 # remove1 cid1 (attention_focus ws))"
      using f1 h(1) .
    then obtain rest where r: "attention_focus ws1 = cid1 # rest"
      by (simp add: take_Cons')
    have "attention_focus ws2 = take 50 (cid2 # remove1 cid2 (attention_focus ws1))"
      using l2 h(2) unfolding w2 c2 by (simp add: attention_focus_add_content Let_def)
    then show ?thesis using r h(3) by (simp add: take_Cons')
  qed
  from f1 f2 f3 show ?thesis by blast
qed

subsection \<open>Evaluating the concrete runs\<close>

lemma add_content_keeps [simp]:
  "module_connections (snd (add_content ws ms now src ctype d p)) = module_connections ws"
  "gw_initialized (snd (add_content ws ms now src ctype d p)) = gw_initialized ws"
  "consciousness_metrics (snd (add_content ws ms now src ctype d p)) = consciousness_metrics ws"
  by (simp_all add: add_content_def update_attention_focus_def Let_def update_conv')

lemma calculate_coherence_cong:
  "module_connections ws = module_connections ws' \<Longrightarrow>
   calculate_coherence ws d src = calculate_coherence ws' d src"
  by (simp add: calculate_coherence_def)

lemma str_int_1000: "str_int 1000 = ''1000''" "str_int 1001 = ''1001''" "str_int 1002 = ''1002''"
  by (simp_all add: str_int_def digit_char_def)

lemma ws_ready_simps:
  "workspace_contents ws_ready = []"
  "attention_focus ws_ready = []"
  "gw_initialized ws_ready"
  "consciousness_metrics ws_ready =
     \<lparr>coherence_level = 0, integration_depth = 0, attention_stability = 0, content_richness = 0\<rparr>"
  by (simp_all add: ws_ready_def gw_initialize_def initialize_module_connections_def gw_init_def)

lemma coherence_ready:
  "calculate_coherence ws_ready ten_keys ''temporal_consciousness'' = 0.9"
  "calculate_coherence ws_ready [(''x'', PyInt 1)] ''moduleA'' = 0.3"
  "calculate_coherence ws_ready [] ''moduleA'' = 0.25"
  by (simp_all add: calculate_coherence_def ws_ready_def gw_initialize_def
      initialize_module_connections_def gw_init_def connected_modules_def ten_keys_def py_len_def)

lemma levels:
  "determine_attention_level (3 / 4) (9 / 10) = CONSCIOUS"
  "determine_attention_level (9 / 10) (9 / 10) = CONSCIOUS"
  "determine_attention_level (4 / 5) (3 / 10) = PERIPHERAL"
  "determine_attention_level (9 / 10) (3 / 10) = PERIPHERAL"
  "determine_attention_level (1 / 10) (1 / 4) = BACKGROUND"
  by (simp_all add: determine_attention_level_def)

lemma ws_a_simps:
  "workspace_contents ws_a =
     [(''content_1000'',
       \<lparr>content_id = ''content_1000'', source_module = ''temporal_consciousness'',
        content_type = ''event'', data = ten_keys, attention_level = CONSCIOUS, timestamp = 0,
        priority = 0.75, coherence_score = 0.9\<rparr>)]"
  "attention_focus ws_a = [''content_1000'']"
  "gw_initialized ws_a"
  "consciousness_metrics ws_a =
     \<lparr>coherence_level = 0, integration_depth = 0, attention_stability = 0, content_richness = 0\<rparr>"
  unfolding ws_a_def
  by (simp_all add: workspace_contents_add_content attention_focus_add_content ws_ready_simps
      coherence_ready levels str_int_1000 Let_def)

lemma coherence_ws_a:
  "calculate_coherence ws_a d src = calculate_coherence ws_ready d src"
  by (rule calculate_coherence_cong) (simp add: ws_a_def)

lemma ws_ab_simps:
  "workspace_contents ws_ab =
     [(''content_1000'',
       \<lparr>content_id = ''content_1000'', source_module = ''temporal_consciousness'',
        content_type = ''event'', data = ten_keys, attention_level = CONSCIOUS, timestamp = 0,
        priority = 0.75, coherence_score = 0.9\<rparr>),
      (''content_1001'',
       \<lparr>content_id = ''content_1001'', source_module = ''temporal_consciousness'',
        content_type = ''event'', data = ten_keys, attention_level = CONSCIOUS, timestamp = 1,
        priority = 0.9, coherence_score = 0.9\<rparr>)]"
  "attention_focus ws_ab = [''content_1001'', ''content_1000'']"
  unfolding ws_ab_def
  by (simp_all add: workspace_contents_add_content attention_focus_add_content ws_a_simps
      coherence_ws_a coherence_ready levels str_int_1000 Let_def)

lemma coherence_ws_ab:
  "calculate_coherence ws_ab d src = calculate_coherence ws_ready d src"
  by (rule calculate_coherence_cong) (simp add: ws_ab_def ws_a_def)

lemma ws_abc_simps:
  "level_of ws_abc ''content_1002'' = Some PERIPHERAL"
  "attention_focus ws_abc = [''content_1001'', ''content_1002'', ''content_1000'']"
  unfolding ws_abc_def level_of_def
  by (simp_all add: workspace_contents_add_content attention_focus_add_content ws_ab_simps
      coherence_ws_ab coherence_ready levels str_int_1000 Let_def)

lemma ws_a_then_peripheral_simps:
  "level_of ws_a_then_peripheral ''content_1001'' = Some PERIPHERAL"
  "level_of ws_a_then_peripheral ''content_1000'' = Some CONSCIOUS"
  "attention_focus ws_a_then_peripheral = [''content_1001'', ''content_1000'']"
  unfolding ws_a_then_peripheral_def level_of_def
  by (simp_all add: workspace_contents_add_content attention_focus_add_content ws_a_simps
      coherence_ws_a coherence_ready levels str_int_1000 Let_def)

lemma ws_abc_contents:
  "workspace_contents ws_abc =
     [(''content_1000'',
       \<lparr>content_id = ''content_1000'', source_module = ''temporal_consciousness'',
        content_type = ''event'', data = ten_keys, attention_level = CONSCIOUS, timestamp = 0,
        priority = 0.75, coherence_score = 0.9\<rparr>),
      (''content_1001'',
       \<lparr>content_id = ''content_1001'', source_module = ''temporal_consciousness'',
        content_type = ''event'', data = ten_keys, attention_level = CONSCIOUS, timestamp = 1,
        priority = 0.9, coherence_score = 0.9\<rparr>),
      (''content_1002'',
       \<lparr>content_id = ''content_1002'', source_module = ''moduleA'',
        content_type = ''event'', data = [(''x'', PyInt 1)], attention_level = PERIPHERAL,
        timestamp = 2, priority = 0.8, coherence_score = 0.3\<rparr>)]"
  unfolding ws_abc_def
  by (simp add: workspace_contents_add_content ws_ab_simps
      coherence_ws_ab coherence_ready levels str_int_1000)

text \<open>
  The focus update rule of claim C5 on a concrete run: two items stored as \<open>CONSCIOUS\<close>,
  then an item stored as \<open>PERIPHERAL\<close> with a priority between theirs, which lands between
  them.
\<close>

theorem focus_update_rule_witness:
  "level_of ws_a ''content_1000'' = Some CONSCIOUS
   \<and> attention_focus ws_a = [''content_1000'']
   \<and> level_of ws_ab ''content_1001'' = Some CONSCIOUS
   \<and> ''content_1000'' \<noteq> ''content_1001''
   \<and> take 2 (attention_focus ws_ab) = [''content_1001'', ''content_1000'']
   \<and> level_of ws_abc ''content_1002'' \<noteq> Some CONSCIOUS
   \<and> attention_focus ws_abc = [''content_1001'', ''content_1002'', ''content_1000'']"
proof -
  have h1: "add_content ws_ready 1000 0 ''temporal_consciousness'' ''event'' ten_keys 0.75
              = (''content_1000'', ws_a)"
    by (simp add: prod_eq_iff fst_add_content ws_a_def str_int_1000)
  have h2: "add_content ws_a 1001 1 ''temporal_consciousness'' ''event'' ten_keys 0.9
              = (''content_1001'', ws_ab)"
    by (simp add: prod_eq_iff fst_add_content ws_ab_def str_int_1000)
  have h3: "add_content ws_ab 1002 2 ''moduleA'' ''event'' [(''x'', PyInt 1)] 0.8
              = (''content_1002'', ws_abc)"
    by (simp add: prod_eq_iff fst_add_content ws_abc_def str_int_1000)
  have h4: "add_content ws_abc 1003 3 ''moduleA'' ''event'' [] 0.1
              = (fst (add_content ws_abc 1003 3 ''moduleA'' ''event'' [] 0.1),
                 snd (add_content ws_abc 1003 3 ''moduleA'' ''event'' [] 0.1))"
    by simp
  have l1: "level_of ws_a ''content_1000'' = Some CONSCIOUS"
    by (simp add: level_of_def ws_a_simps)
  have l2: "level_of ws_ab ''content_1001'' = Some CONSCIOUS"
    by (simp add: level_of_def ws_ab_simps)
  have l3: "level_of ws_abc ''content_1002'' \<noteq> Some CONSCIOUS"
    by (simp add: ws_abc_simps)
  have ne: "''content_1000'' \<noteq> ''content_1001''"
    by simp
  from focus_update_rule [OF h1 h2] l1 l2 ne
  have r1: "attention_focus ws_a = take 50 (''content_1000'' # remove1 ''content_1000'' (attention_focus ws_ready))"
    and r2: "take 2 (attention_focus ws_ab) = [''content_1001'', ''content_1000'']"
    by blast+
  from focus_update_rule [OF h3 h4] l3
  have r3: "attention_focus ws_abc =
              take 50
                (takeWhile (\<lambda>e. \<not> has_lower_priority (workspace_contents ws_abc) 0.8 e)
                   (remove1 ''content_1002'' (attention_focus ws_ab))
                 @ ''content_1002'' #
                 dropWhile (\<lambda>e. \<not> has_lower_priority (workspace_contents ws_abc) 0.8 e)
                   (remove1 ''content_1002'' (attention_focus ws_ab)))"
    by blast
  have f1: "attention_focus ws_a = [''content_1000'']"
    using r1 by (simp add: ws_ready_simps)
  have f3: "attention_focus ws_abc = [''content_1001'', ''content_1002'', ''content_1000'']"
    unfolding r3 by (simp add: ws_ab_simps ws_abc_contents has_lower_priority_def)
  from l1 f1 l2 ne r2 l3 f3 show ?thesis by blast
qed

lemma ws_p_simps:
  "workspace_contents ws_p =
     [(''content_1000'',
       \<lparr>content_id = ''content_1000'', source_module = ''moduleA'',
        content_type = ''event'', data = [(''x'', PyInt 1)], attention_level = PERIPHERAL,
        timestamp = 0, priority = 0.9, coherence_score = 0.3\<rparr>)]"
  "attention_focus ws_p = [''content_1000'']"
  unfolding ws_p_def
  by (simp_all add: workspace_contents_add_content attention_focus_add_content ws_ready_simps
      coherence_ready levels str_int_1000 Let_def)

lemma coherence_ws_p:
  "calculate_coherence ws_p d src = calculate_coherence ws_ready d src"
  by (rule calculate_coherence_cong) (simp add: ws_p_def)

lemma ws_pc_simps:
  "workspace_contents ws_pc =
     [(''content_1000'',
       \<lparr>content_id = ''content_1000'', source_module = ''moduleA'',
        content_type = ''event'', data = [(''x'', PyInt 1)], attention_level = PERIPHERAL,
        timestamp = 0, priority = 0.9, coherence_score = 0.3\<rparr>),
      (''content_1001'',
       \<lparr>content_id = ''content_1001'', source_module = ''temporal_consciousness'',
        content_type = ''event'', data = ten_keys, attention_level = CONSCIOUS, timestamp = 1,
        priority = 0.75, coherence_score = 0.9\<rparr>)]"
  "attention_focus ws_pc = [''content_1001'', ''content_1000'']"
  unfolding ws_pc_def
  by (simp_all add: workspace_contents_add_content attention_focus_add_content ws_p_simps
      coherence_ws_p coherence_ready levels str_int_1000 Let_def)

lemma coherence_ws_pc:
  "calculate_coherence ws_pc d src = calculate_coherence ws_ready d src"
  by (rule calculate_coherence_cong) (simp add: ws_pc_def ws_p_def)

lemma ws_pcp_simps:
  "map_option priority (map_of (workspace_contents ws_pcp) ''content_1000'') = Some 0.9"
  "map_option priority (map_of (workspace_contents ws_pcp) ''content_1002'') = Some 0.9"
  "level_of ws_pcp ''content_1002'' = Some PERIPHERAL"
  "attention_focus ws_pcp = [''content_1002'', ''content_1001'', ''content_1000'']"
  unfolding ws_pcp_def level_of_def
  by (simp_all add: workspace_contents_add_content attention_focus_add_content ws_pc_simps
      coherence_ws_pc coherence_ready levels str_int_1000 Let_def)

text \<open>
  Claim C5 as stated fails, in two ways.
  \<^item> The item of id \<open>content_1000\<close> is stored as \<open>CONSCIOUS\<close> with priority 0.75; the item
    admitted next is \<open>PERIPHERAL\<close> with priority 0.9 and is put ahead of it. A \<open>CONSCIOUS\<close>
    item is in the ordering and does not lead, and the item of lower rank was not kept
    among the items of equal or lower rank.
  \<^item> On the run \<open>ws_pcp\<close> the ordering is \<open>content_1001\<close> (priority 0.75), \<open>content_1000\<close>
    (priority 0.9) when the \<open>PERIPHERAL\<close> item \<open>content_1002\<close> of priority 0.9 is admitted.
    The loop stops at the first entry, which has a lower priority, and the new item is
    put ahead of the older item of the same priority: the first-inserted item does not
    win the tie.
\<close>

theorem peripheral_item_leads_conscious_item:
  "level_of ws_a_then_peripheral ''content_1000'' = Some CONSCIOUS
   \<and> level_of ws_a_then_peripheral ''content_1001'' = Some PERIPHERAL
   \<and> attention_focus ws_a_then_peripheral = [''content_1001'', ''content_1000'']
   \<and> hd (attention_focus ws_a_then_peripheral) \<noteq> ''content_1000''
   \<and> attention_focus ws_pc = [''content_1001'', ''content_1000'']
   \<and> map_option priority (map_of (workspace_contents ws_pcp) ''content_1000'') = Some 0.9
   \<and> map_option priority (map_of (workspace_contents ws_pcp) ''content_1002'') = Some 0.9
   \<and> level_of ws_pcp ''content_1002'' = Some PERIPHERAL
   \<and> attention_focus ws_pcp = [''content_1002'', ''content_1001'', ''content_1000'']"
  by (simp add: ws_a_then_peripheral_simps ws_pc_simps ws_pcp_simps)

lemma py_len_update_present:
  "k \<in> fst ` set xs \<Longrightarrow> py_len (AList.update k v xs) = py_len xs"
  by (simp add: py_len_def update_keys)

lemma fst_process_temporal_experience:
  "fst (process_temporal_experience tcs ms now xd sig) = ''temporal_event_'' @ str_int ms"
  by (simp add: process_temporal_experience_def Let_def)

lemma temporal_events_process:
  "temporal_events (snd (process_temporal_experience tcs ms now xd sig)) =
     AList.update (''temporal_event_'' @ str_int ms)
       \<lparr>event_id = ''temporal_event_'' @ str_int ms, event_timestamp = now,
        event_type = (case xp_type xd of None \<Rightarrow> ''experience'' | Some t \<Rightarrow> t),
        description =
          (case xp_description xd of
             None \<Rightarrow> ''Temporal experience: '' @ (''temporal_event_'' @ str_int ms)
           | Some d \<Rightarrow> d),
        significance = sig,
        emotional_valence = (case xp_emotional_valence xd of None \<Rightarrow> 0.0 | Some v \<Rightarrow> v),
        causal_relations = identify_causal_relations xd,
        narrative_context = (case xp_narrative_context xd of None \<Rightarrow> [] | Some c \<Rightarrow> c),
        memory_strength = 1.0,
        temporal_scale = determine_temporal_scale xd\<rparr>
       (temporal_events tcs)"
  by (simp add: process_temporal_experience_def Let_def split: option.split)

lemma ws_a_seen_simps:
  "workspace_contents ws_a_seen = workspace_contents ws_a"
  "attention_focus ws_a_seen = attention_focus ws_a"
  "module_connections ws_a_seen = module_connections ws_a"
  "gw_initialized ws_a_seen"
  "coherence_level (consciousness_metrics ws_a_seen) = 0.9"
  by (simp_all add: ws_a_seen_def get_workspace_state_def update_consciousness_metrics_def
      Let_def ws_a_simps)

lemma coherence_ws_a_seen:
  "calculate_coherence ws_a_seen d src = calculate_coherence ws_ready d src"
  by (rule calculate_coherence_cong) (simp add: ws_a_seen_simps ws_a_def)

lemma ws_same_ms_simps:
  "workspace_contents ws_same_ms =
     [(''content_1000'',
       \<lparr>content_id = ''content_1000'', source_module = ''moduleA'', content_type = ''note'',
        data = [], attention_level = BACKGROUND, timestamp = 2, priority = 0.1,
        coherence_score = 0.25\<rparr>)]"
  "gw_initialized ws_same_ms"
  "coherence_level (consciousness_metrics ws_same_ms) = 0.9"
  unfolding ws_same_ms_def
  by (simp_all add: workspace_contents_add_content ws_a_seen_simps ws_a_simps
      coherence_ws_a_seen coherence_ready levels str_int_1000)

lemma update_key_present: "k \<in> fst ` set (AList.update k v xs)"
  by (induction xs) auto

text \<open>
  Claim C4 does not hold of the code. An id is the clock reading in whole milliseconds, so
  two admissions, or two event recordings, within the same millisecond get the same id, and
  the second replaces the first under that key: the number of stored items does not grow
  and the first item is gone. On the concrete run the workspace holds one item after two
  admissions, and \<^verbatim>\<open>initialize\<close> of the temporal store, whose loop records the three
  foundational events within one millisecond, leaves one event.
\<close>

theorem same_millisecond_overwrites:
  "fst (add_content (snd (add_content ws ms now1 src1 ct1 d1 p1)) ms now2 src2 ct2 d2 p2)
     = fst (add_content ws ms now1 src1 ct1 d1 p1)
   \<and> py_len (workspace_contents
               (snd (add_content (snd (add_content ws ms now1 src1 ct1 d1 p1))
                       ms now2 src2 ct2 d2 p2)))
     = py_len (workspace_contents (snd (add_content ws ms now1 src1 ct1 d1 p1)))
   \<and> map_option (\<lambda>c. (source_module c, content_type c, data c, timestamp c, priority c))
        (map_of
           (workspace_contents
              (snd (add_content (snd (add_content ws ms now1 src1 ct1 d1 p1))
                      ms now2 src2 ct2 d2 p2)))
           (fst (add_content ws ms now1 src1 ct1 d1 p1)))
     = Some (src2, ct2, d2, now2, p2)
   \<and> fst (process_temporal_experience (snd (process_temporal_experience tcs ms now1 xd1 sig1))
            ms now2 xd2 sig2)
     = fst (process_temporal_experience tcs ms now1 xd1 sig1)
   \<and> py_len (temporal_events
               (snd (process_temporal_experience
                       (snd (process_temporal_experience tcs ms now1 xd1 sig1))
                       ms now2 xd2 sig2)))
     = py_len (temporal_events (snd (process_temporal_experience tcs ms now1 xd1 sig1)))
   \<and> py_len (workspace_contents ws_same_ms) = 1
   \<and> map_option source_module (map_of (workspace_contents ws_same_ms) ''content_1000'')
     = Some ''moduleA''
   \<and> py_len (temporal_events (snd (tc_initialize tc_init (\<lambda>i. (1000, 0))))) = 1"
proof -
  let ?ws1 = "snd (add_content ws ms now1 src1 ct1 d1 p1)"
  let ?ws2 = "snd (add_content ?ws1 ms now2 src2 ct2 d2 p2)"
  let ?t1 = "snd (process_temporal_experience tcs ms now1 xd1 sig1)"
  let ?t2 = "snd (process_temporal_experience ?t1 ms now2 xd2 sig2)"
  have i: "fst (add_content ?ws1 ms now2 src2 ct2 d2 p2) = fst (add_content ws ms now1 src1 ct1 d1 p1)"
    by (simp only: fst_add_content)
  have a: "py_len (workspace_contents ?ws2) = py_len (workspace_contents ?ws1)"
    unfolding workspace_contents_add_content [of ?ws1]
    unfolding workspace_contents_add_content [of ws]
    by (rule py_len_update_present) (rule update_key_present)
  have m: "map_option (\<lambda>c. (source_module c, content_type c, data c, timestamp c, priority c))
        (map_of (workspace_contents ?ws2) (fst (add_content ws ms now1 src1 ct1 d1 p1)))
     = Some (src2, ct2, d2, now2, p2)"
    unfolding i [symmetric] map_of_add_content by simp
  have j: "fst (process_temporal_experience ?t1 ms now2 xd2 sig2)
     = fst (process_temporal_experience tcs ms now1 xd1 sig1)"
    by (simp only: fst_process_temporal_experience)
  have b: "py_len (temporal_events ?t2) = py_len (temporal_events ?t1)"
    unfolding temporal_events_process [of ?t1]
    unfolding temporal_events_process [of tcs]
    by (rule py_len_update_present) (rule update_key_present)
  have c: "py_len (workspace_contents ws_same_ms) = 1"
    by (simp add: ws_same_ms_simps py_len_def)
  have d: "map_option source_module (map_of (workspace_contents ws_same_ms) ''content_1000'')
     = Some ''moduleA''"
    by (simp add: ws_same_ms_simps)
  have e: "py_len (temporal_events (snd (tc_initialize tc_init (\<lambda>i. (1000, 0))))) = 1"
    by (simp add: tc_initialize_def create_foundational_events_def foundational_events_def
        initialize_present_moment_def tc_init_def temporal_events_process py_len_def)
  from i a m j b c d e show ?thesis by blast
qed

text \<open>
  What a snapshot of an initialized workspace reports: the mean coherence of the items that
  are \<open>CONSCIOUS\<close> when there is one, and otherwise the value the metric had before.
\<close>

lemma reported_coherence_level_cases:
  "gw_initialized ws \<Longrightarrow>
   reported_coherence_level ws now =
     Some (if get_conscious_contents ws = [] then coherence_level (consciousness_metrics ws)
           else sum_list (map coherence_score (get_conscious_contents ws))
                  / real (length (get_conscious_contents ws)))"
  by (simp add: reported_coherence_level_def get_workspace_state_def
      update_consciousness_metrics_def get_conscious_contents_def Let_def)

lemma update_fresh: "k \<notin> fst ` set xs \<Longrightarrow> AList.update k v xs = xs @ [(k, v)]"
  by (induction xs) auto

lemma conscious_after_fresh_admission:
  "''content_'' @ str_int ms \<notin> fst ` set (workspace_contents ws) \<Longrightarrow>
   get_conscious_contents (snd (add_content ws ms now src ctype d p)) = [] \<Longrightarrow>
   get_conscious_contents ws = []"
  by (simp add: get_conscious_contents_def workspace_contents_add_content update_fresh)

lemma get_workspace_state_keeps [simp]:
  "workspace_contents (snd (get_workspace_state ws now)) = workspace_contents ws"
  "gw_initialized (snd (get_workspace_state ws now)) = gw_initialized ws"
  by (simp_all add: get_workspace_state_def update_consciousness_metrics_def Let_def)

lemma coherence_level_kept_without_conscious:
  "get_conscious_contents ws = [] \<Longrightarrow>
   coherence_level (consciousness_metrics (snd (get_workspace_state ws now)))
     = coherence_level (consciousness_metrics ws)"
  by (simp add: get_workspace_state_def update_consciousness_metrics_def Let_def
      get_conscious_contents_def)

lemma gw_initialize_keeps [simp]:
  "workspace_contents (snd (gw_initialize ws)) = workspace_contents ws"
  "consciousness_metrics (snd (gw_initialize ws)) = consciousness_metrics ws"
  by (simp_all add: gw_initialize_def initialize_module_connections_def)

lemma zero_without_conscious_step:
  assumes inv: "get_conscious_contents ws = [] \<longrightarrow> coherence_level (consciousness_metrics ws) = 0"
    and fresh: "fresh_ids ws [op]"
  shows "get_conscious_contents (gw_step ws op) = []
           \<longrightarrow> coherence_level (consciousness_metrics (gw_step ws op)) = 0"
proof (cases op)
  case Initialize
  with inv show ?thesis by (simp add: get_conscious_contents_def)
next
  case (AddContent ms now src ctype d p)
  with fresh have k: "''content_'' @ str_int ms \<notin> fst ` set (workspace_contents ws)"
    by simp
  show ?thesis
  proof
    assume "get_conscious_contents (gw_step ws op) = []"
    then have "get_conscious_contents (snd (add_content ws ms now src ctype d p)) = []"
      using AddContent by simp
    with k have "get_conscious_contents ws = []"
      by (rule conscious_after_fresh_admission)
    with inv show "coherence_level (consciousness_metrics (gw_step ws op)) = 0"
      using AddContent by simp
  qed
next
  case (GetWorkspaceState now)
  with inv show ?thesis
    by (simp add: get_conscious_contents_def [of "snd (get_workspace_state ws now)"]
        coherence_level_kept_without_conscious)
      (simp add: get_conscious_contents_def coherence_level_kept_without_conscious)
qed

lemma zero_without_conscious_run:
  "get_conscious_contents ws = [] \<longrightarrow> coherence_level (consciousness_metrics ws) = 0 \<Longrightarrow>
   fresh_ids ws ops \<Longrightarrow>
   get_conscious_contents (gw_run ws ops) = []
     \<longrightarrow> coherence_level (consciousness_metrics (gw_run ws ops)) = 0"
proof (induction ops arbitrary: ws)
  case Nil
  then show ?case by (simp add: gw_run_def)
next
  case (Cons op ops)
  from Cons.prems have "fresh_ids ws [op]" and f: "fresh_ids (gw_step ws op) ops"
    by simp_all
  with Cons.prems(1) have "get_conscious_contents (gw_step ws op) = []
           \<longrightarrow> coherence_level (consciousness_metrics (gw_step ws op)) = 0"
    by (intro zero_without_conscious_step)
  from Cons.IH [OF this f] show ?case
    by (simp add: gw_run_def)
qed

text \<open>
  Without id collisions the snapshot of an initialized workspace reports the mean coherence
  of the \<open>CONSCIOUS\<close> items, and 0 when there is none.
\<close>

lemma snapshot_coherence_without_collisions:
  assumes "fresh_ids gw_init ops" and "gw_initialized (gw_run gw_init ops)"
  shows "reported_coherence_level (gw_run gw_init ops) now =
     Some (if get_conscious_contents (gw_run gw_init ops) = [] then 0
           else sum_list (map coherence_score (get_conscious_contents (gw_run gw_init ops)))
                  / real (length (get_conscious_contents (gw_run gw_init ops))))"
proof -
  have "get_conscious_contents gw_init = [] \<longrightarrow> coherence_level (consciousness_metrics gw_init) = 0"
    by (simp add: gw_init_def)
  from zero_without_conscious_run [OF this assms(1)] assms(2) show ?thesis
    by (simp add: reported_coherence_level_cases)
qed

text \<open>
  Claim C8 does not hold of the code. On the run \<open>ws_same_ms\<close> the only item that was
  \<open>CONSCIOUS\<close> has been replaced by a \<open>BACKGROUND\<close> item of the same id, no item is
  \<open>CONSCIOUS\<close>, and the snapshot still reports the coherence level 0.9 of the earlier
  snapshot: the metric is only written when some item is \<open>CONSCIOUS\<close>.
\<close>

theorem stale_coherence_level:
  "get_conscious_contents ws_same_ms = []
   \<and> reported_coherence_level ws_same_ms 3 = Some 0.9
   \<and> reported_coherence_level ws_a 1 = Some 0.9"
  by (simp add: get_conscious_contents_def reported_coherence_level_def get_workspace_state_def
      update_consciousness_metrics_def Let_def ws_same_ms_simps ws_a_simps)

section \<open>Properties of the core and of the temporal store\<close>

lemma log_activity_keeps [simp]:
  "temporal_consciousness (log_activity core a b c d) = temporal_consciousness core"
  "global_workspace (log_activity core a b c d) = global_workspace core"
  "system_status (log_activity core a b c d) = system_status core"
  "core_initialized (log_activity core a b c d) = core_initialized core"
  by (simp_all add: log_activity_def Let_def)

lemma system_status_pause_system: "system_status (snd (pause_system core)) = ''paused''"
  by (simp add: pause_system_def Let_def)

lemma system_status_emergency_stop:
  "system_status (snd (emergency_stop core)) = ''emergency_stop''"
  by (simp add: emergency_stop_def Let_def)

lemma process_experience_active:
  "core_initialized core \<Longrightarrow> system_status core = ''active'' \<Longrightarrow>
   fst (process_experience core ms now xd) = Inl update_workspace_missing
   \<and> temporal_consciousness (snd (process_experience core ms now xd))
       = snd (process_temporal_experience (temporal_consciousness core) ms now xd 0.5)
   \<and> global_workspace (snd (process_experience core ms now xd)) = global_workspace core"
  by (simp add: process_experience_def process_temporal_experience_default_def Let_def
      split_beta)

text \<open>
  Claim C2. When the status of the core is \<open>paused\<close> or \<open>emergency_stop\<close>,
  \<^verbatim>\<open>process_experience\<close> returns the error \<open>System not active\<close> and the whole state of
  the core is as before, in particular the number of workspace items and the stored events.
\<close>

theorem ingest_rejected_when_not_active:
  assumes "system_status core = ''paused'' \<or> system_status core = ''emergency_stop''"
  shows "process_experience core ms now xd = (Inl ''System not active'', core)
       \<and> total_contents (snd (process_experience core ms now xd)) = total_contents core
       \<and> temporal_events (temporal_consciousness (snd (process_experience core ms now xd)))
           = temporal_events (temporal_consciousness core)"
proof -
  have "system_status core \<noteq> ''active''"
    using assms by auto
  then have "process_experience core ms now xd = (Inl ''System not active'', core)"
    by (simp add: process_experience_def)
  then show ?thesis
    by simp
qed

text \<open>Claim C2 on a core that was paused, and on one that was stopped.\<close>

theorem ingest_rejected_when_not_active_witness:
  "system_status core_paused = ''paused''
   \<and> process_experience core_paused 3000 20 an_experience = (Inl ''System not active'', core_paused)
   \<and> system_status core_stopped = ''emergency_stop''
   \<and> process_experience core_stopped 3000 20 an_experience
       = (Inl ''System not active'', core_stopped)"
proof -
  have p: "system_status core_paused = ''paused''"
    unfolding core_paused_def by (rule system_status_pause_system)
  have e: "system_status core_stopped = ''emergency_stop''"
    unfolding core_stopped_def by (rule system_status_emergency_stop)
  from p ingest_rejected_when_not_active [of core_paused 3000 20 an_experience]
  have 1: "process_experience core_paused 3000 20 an_experience
             = (Inl ''System not active'', core_paused)"
    by blast
  from e ingest_rejected_when_not_active [of core_stopped 3000 20 an_experience]
  have 2: "process_experience core_stopped 3000 20 an_experience
             = (Inl ''System not active'', core_stopped)"
    by blast
  from p e 1 2 show ?thesis by blast
qed

lemma keys_update: "fst ` set (AList.update k v xs) = insert k (fst ` set xs)"
  by (induction xs) auto

lemma keys_process_temporal_experience:
  "fst ` set (temporal_events (snd (process_temporal_experience tcs ms now xd sig)))
     = insert (''temporal_event_'' @ str_int ms) (fst ` set (temporal_events tcs))"
  by (simp only: temporal_events_process keys_update)

lemma keys_foundational_loop:
  "fst ` set (temporal_events tcs) \<subseteq> fst ` set (temporal_events (foundational_loop tcs clk i xds))"
proof (induction xds arbitrary: tcs i)
  case Nil
  then show ?case by simp
next
  case (Cons xd xds)
  show ?case
  proof (cases "xp_significance xd")
    case None
    then show ?thesis by simp
  next
    case (Some sig)
    have "fst ` set (temporal_events tcs)
            \<subseteq> fst ` set (temporal_events
                             (snd (process_temporal_experience tcs (fst (clk i)) (snd (clk i)) xd sig)))"
      by (simp only: keys_process_temporal_experience) blast
    also have "\<dots> \<subseteq> fst ` set (temporal_events
                (foundational_loop
                   (snd (process_temporal_experience tcs (fst (clk i)) (snd (clk i)) xd sig))
                   clk (Suc i) xds))"
      by (rule Cons.IH)
    finally show ?thesis using Some by simp
  qed
qed

lemma first_foundational_key:
  "''temporal_event_'' @ str_int (fst (clk 0))
     \<in> fst ` set (temporal_events (create_foundational_events tcs clk))"
proof -
  let ?t = "snd (process_temporal_experience tcs (fst (clk 0)) (snd (clk 0))
                   (hd foundational_events) 1.0)"
  have "''temporal_event_'' @ str_int (fst (clk 0)) \<in> fst ` set (temporal_events ?t)"
    by (simp only: keys_process_temporal_experience) blast
  moreover have "fst ` set (temporal_events ?t)
      \<subseteq> fst ` set (temporal_events (foundational_loop ?t clk (Suc 0) (tl foundational_events)))"
    by (rule keys_foundational_loop)
  moreover have "create_foundational_events tcs clk
      = foundational_loop ?t clk (Suc 0) (tl foundational_events)"
    by (simp add: create_foundational_events_def foundational_events_def)
  ultimately show ?thesis by auto
qed

lemma recent_events_nonempty:
  "temporal_events tcs \<noteq> [] \<Longrightarrow> recent_events tcs (Suc n) \<noteq> []"
proof -
  assume a: "temporal_events tcs \<noteq> []"
  have "length (rev (sort_key event_timestamp (rev (map snd (temporal_events tcs)))))
          = length (temporal_events tcs)"
    by simp
  with a have "rev (sort_key event_timestamp (rev (map snd (temporal_events tcs)))) \<noteq> []"
    by (metis length_0_conv)
  then show ?thesis
    unfolding recent_events_def by (cases "rev (sort_key event_timestamp (rev (map snd (temporal_events tcs))))") simp_all
qed

lemma core_initialize_stores:
  "temporal_consciousness (snd (core_initialize core clk n_ok))
     = snd (tc_initialize (temporal_consciousness core) clk)"
  "global_workspace (snd (core_initialize core clk n_ok)) = snd (gw_initialize (global_workspace core))"
  "system_status (snd (core_initialize core clk n_ok)) = ''active''"
  "core_initialized (snd (core_initialize core clk n_ok))"
  by (simp_all add: core_initialize_def Let_def split_beta)

lemma resume_after_emergency_stop:
  "resume_system (snd (emergency_stop core)) clk n_ok
     = core_initialize (snd (emergency_stop core)) clk n_ok"
  by (simp add: resume_system_def system_status_emergency_stop)

lemma emergency_stop_stores [simp]:
  "temporal_consciousness (snd (emergency_stop core)) = temporal_consciousness core"
  "global_workspace (snd (emergency_stop core)) = global_workspace core"
  by (simp_all add: emergency_stop_def Let_def)

text \<open>
  Claim C1, as amended. \<^verbatim>\<open>emergency_stop\<close> followed by \<^verbatim>\<open>resume_system\<close>, which runs
  \<^verbatim>\<open>initialize\<close> again, empties neither store. The status is \<open>active\<close> again; the workspace
  holds the items and the focus ordering it held before, so the number of items is
  unchanged; every id of an event stored before is still a key of the event store; the
  foundational events are recorded once more, so the store is not empty and the query for
  the most recent events, asked for at least one event, returns some.
\<close>

theorem stop_and_reinitialize_keeps_stores:
  "system_status (snd (resume_system (snd (emergency_stop core)) clk n_ok)) = ''active''
   \<and> workspace_contents (global_workspace (snd (resume_system (snd (emergency_stop core)) clk n_ok)))
       = workspace_contents (global_workspace core)
   \<and> attention_focus (global_workspace (snd (resume_system (snd (emergency_stop core)) clk n_ok)))
       = attention_focus (global_workspace core)
   \<and> total_contents (snd (resume_system (snd (emergency_stop core)) clk n_ok))
       = total_contents core
   \<and> fst ` set (temporal_events (temporal_consciousness core))
       \<subseteq> fst ` set (temporal_events
                        (temporal_consciousness
                           (snd (resume_system (snd (emergency_stop core)) clk n_ok))))
   \<and> ''temporal_event_'' @ str_int (fst (clk 0))
       \<in> fst ` set (temporal_events
                      (temporal_consciousness
                         (snd (resume_system (snd (emergency_stop core)) clk n_ok))))
   \<and> recent_events
        (temporal_consciousness (snd (resume_system (snd (emergency_stop core)) clk n_ok)))
        (Suc n) \<noteq> []"
proof -
  let ?s = "snd (resume_system (snd (emergency_stop core)) clk n_ok)"
  have tc: "temporal_consciousness ?s = snd (tc_initialize (temporal_consciousness core) clk)"
    by (simp add: resume_after_emergency_stop core_initialize_stores)
  have gw: "global_workspace ?s = snd (gw_initialize (global_workspace core))"
    by (simp add: resume_after_emergency_stop core_initialize_stores)
  have st: "system_status ?s = ''active''"
    by (simp add: resume_after_emergency_stop core_initialize_stores)
  have wc: "workspace_contents (global_workspace ?s) = workspace_contents (global_workspace core)"
    unfolding gw by (simp add: gw_initialize_def initialize_module_connections_def)
  have af: "attention_focus (global_workspace ?s) = attention_focus (global_workspace core)"
    unfolding gw by simp
  have tot: "total_contents ?s = total_contents core"
    unfolding total_contents_def wc ..
  have ev: "temporal_events (temporal_consciousness ?s)
      = temporal_events
          (create_foundational_events (initialize_present_moment (temporal_consciousness core)) clk)"
    unfolding tc by (simp add: tc_initialize_def)
  have sub: "fst ` set (temporal_events (temporal_consciousness core))
       \<subseteq> fst ` set (temporal_events (temporal_consciousness ?s))"
    unfolding ev create_foundational_events_def
    using keys_foundational_loop [of "initialize_present_moment (temporal_consciousness core)" clk 0 foundational_events]
    by (simp add: initialize_present_moment_def)
  have mem: "''temporal_event_'' @ str_int (fst (clk 0))
       \<in> fst ` set (temporal_events (temporal_consciousness ?s))"
    unfolding ev by (rule first_foundational_key)
  then have "temporal_events (temporal_consciousness ?s) \<noteq> []"
    by auto
  then have re: "recent_events (temporal_consciousness ?s) (Suc n) \<noteq> []"
    by (rule recent_events_nonempty)
  from st wc af tot sub mem re show ?thesis by blast
qed

lemma core_resumed_events:
  "temporal_events (temporal_consciousness core_ready) \<noteq> []"
  "map event_id (recent_events (temporal_consciousness core_resumed) 20) =
     [''temporal_event_2002'', ''temporal_event_2001'', ''temporal_event_2000'',
      ''temporal_event_1002'', ''temporal_event_1001'', ''temporal_event_1000'']"
  by (simp_all add: core_resumed_def core_stopped_def core_ready_def resume_after_emergency_stop
      core_initialize_stores tc_initialize_def create_foundational_events_def
      foundational_events_def temporal_events_process initialize_present_moment_def
      recent_events_def core_init_def tc_init_def str_int_def digit_char_def
      determine_temporal_scale_def identify_causal_relations_def)

text \<open>
  Claim C1 as stated fails: a core is initialized, stopped by \<^verbatim>\<open>emergency_stop\<close> and resumed.
  The query for the twenty most recent events then returns six events, the three
  foundational events of each of the two initializations.
\<close>

theorem stores_not_emptied_by_stop_and_resume:
  "system_status core_stopped = ''emergency_stop''
   \<and> \<not> (total_contents core_resumed = 0
          \<and> recent_events (temporal_consciousness core_resumed) 20 = [])
   \<and> map event_id (recent_events (temporal_consciousness core_resumed) 20) =
     [''temporal_event_2002'', ''temporal_event_2001'', ''temporal_event_2000'',
      ''temporal_event_1002'', ''temporal_event_1001'', ''temporal_event_1000'']"
proof -
  have e: "system_status core_stopped = ''emergency_stop''"
    unfolding core_stopped_def by (rule system_status_emergency_stop)
  have "recent_events (temporal_consciousness core_resumed) 20 \<noteq> []"
    using core_resumed_events(2) by auto
  with e core_resumed_events(2) show ?thesis by blast
qed

lemma scale_factor_pos: "0 < scale_factor sc"
  by (cases sc) (simp_all add: scale_factor_def)

lemma calculate_temporal_distance_range:
  "0 \<le> calculate_temporal_distance e ref" "calculate_temporal_distance e ref \<le> 1"
  using scale_factor_pos [of "temporal_scale e"]
  by (simp_all add: calculate_temporal_distance_def Let_def)

lemma is_temporally_relevant_iff:
  "is_temporally_relevant e ref thr \<longleftrightarrow>
     thr < significance e * memory_strength e / (1 + calculate_temporal_distance e ref)"
  by (simp add: is_temporally_relevant_def Let_def)

lemma quotient_antimono:
  fixes a d d' thr :: real
  assumes "0 \<le> d'" "d' \<le> d" "thr < a / (1 + d)" "0 \<le> a \<or> 0 \<le> thr"
  shows "thr < a / (1 + d')"
proof (cases "0 \<le> a")
  case True
  have "a / (1 + d) \<le> a / (1 + d')"
    using assms(1,2) True by (intro divide_left_mono) (auto intro: mult_pos_pos)
  with assms(3) show ?thesis by simp
next
  case False
  then have "a / (1 + d) < 0"
    using assms(1,2) by (intro divide_neg_pos) auto
  with assms(3,4) False show ?thesis by simp
qed

text \<open>
  Claim C7, as amended. The relevance test
  \<open>significance * memory_strength / (1 + distance) > threshold\<close> of
  \<^verbatim>\<open>is_temporally_relevant\<close>, for an event whose memory strength is not negative and
  with a significance or a threshold that is not negative (as for every event of the
  store at the default threshold 0.5, or with a significance in \<open>[0,1]\<close>):
  \<^item> it is antitone in the temporal distance: if it holds for an event at a reference
    time, it holds for every event of the same significance and memory strength at every
    reference time whose distance is not greater;
  \<^item> it is monotone in the significance, the other fields and the reference time fixed;
  \<^item> it is monotone in the memory strength, the other fields and the reference time fixed.
\<close>

theorem relevance_monotone:
  assumes m: "0 \<le> memory_strength e" and st: "0 \<le> significance e \<or> 0 \<le> thr"
  shows "(is_temporally_relevant e ref thr
            \<and> calculate_temporal_distance e' ref' \<le> calculate_temporal_distance e ref
            \<and> significance e' = significance e \<and> memory_strength e' = memory_strength e
          \<longrightarrow> is_temporally_relevant e' ref' thr)
       \<and> (is_temporally_relevant e ref thr \<and> significance e \<le> s'
          \<longrightarrow> is_temporally_relevant (e\<lparr>significance := s'\<rparr>) ref thr)
       \<and> (is_temporally_relevant e ref thr \<and> memory_strength e \<le> m'
          \<longrightarrow> is_temporally_relevant (e\<lparr>memory_strength := m'\<rparr>) ref thr)"
proof -
  let ?d = "calculate_temporal_distance e ref"
  have dpos: "0 < 1 + ?d"
    using calculate_temporal_distance_range(1) [of e ref] by simp
  have c1: "is_temporally_relevant e' ref' thr"
    if r: "is_temporally_relevant e ref thr"
      and le: "calculate_temporal_distance e' ref' \<le> ?d"
      and eq: "significance e' = significance e" "memory_strength e' = memory_strength e"
  proof -
    have a: "0 \<le> significance e * memory_strength e \<or> 0 \<le> thr"
      using m st by (auto intro: mult_nonneg_nonneg)
    have "thr < significance e * memory_strength e / (1 + calculate_temporal_distance e' ref')"
      using calculate_temporal_distance_range(1) [of e' ref'] le r a
      unfolding is_temporally_relevant_iff by (rule quotient_antimono)
    then show ?thesis
      unfolding is_temporally_relevant_iff eq .
  qed
  have c2: "is_temporally_relevant (e\<lparr>significance := s'\<rparr>) ref thr"
    if r: "is_temporally_relevant e ref thr" and le: "significance e \<le> s'"
  proof -
    have "significance e * memory_strength e \<le> s' * memory_strength e"
      using le m by (rule mult_right_mono)
    then have "significance e * memory_strength e / (1 + ?d) \<le> s' * memory_strength e / (1 + ?d)"
      using dpos by (simp add: divide_right_mono)
    with r show ?thesis
      by (simp add: is_temporally_relevant_iff calculate_temporal_distance_def)
  qed
  have c3: "is_temporally_relevant (e\<lparr>memory_strength := m'\<rparr>) ref thr"
    if r: "is_temporally_relevant e ref thr" and le: "memory_strength e \<le> m'"
  proof (cases "0 \<le> significance e")
    case True
    have "significance e * memory_strength e \<le> significance e * m'"
      using le True by (rule mult_left_mono)
    then have "significance e * memory_strength e / (1 + ?d) \<le> significance e * m' / (1 + ?d)"
      using dpos by (simp add: divide_right_mono)
    with r show ?thesis
      by (simp add: is_temporally_relevant_iff calculate_temporal_distance_def)
  next
    case False
    then have "significance e * memory_strength e \<le> 0"
      using m by (simp add: mult_nonpos_nonneg)
    then have "significance e * memory_strength e / (1 + ?d) \<le> 0"
      using dpos by (simp add: divide_nonpos_pos)
    moreover have "0 \<le> thr"
      using st False by simp
    ultimately show ?thesis
      using r by (simp add: is_temporally_relevant_iff)
  qed
  from c1 c2 c3 show ?thesis by blast
qed

text \<open>
  Claim C7 on an event of significance 0.9 on the short-term scale: 1800 seconds after
  the event the distance is \<open>1800 / 3600 = 0.5\<close> and the event is relevant at the default
  threshold; it is relevant at the smaller distance of 900 seconds, with the greater
  significance 1, and with the greater memory strength 2.
\<close>

theorem relevance_monotone_witness:
  "0 \<le> memory_strength an_event \<and> 0 \<le> significance an_event
   \<and> calculate_temporal_distance an_event 1800 = 0.5
   \<and> is_temporally_relevant_default an_event 1800
   \<and> calculate_temporal_distance an_event 900 \<le> calculate_temporal_distance an_event 1800
   \<and> is_temporally_relevant an_event 900 0.5
   \<and> is_temporally_relevant (an_event\<lparr>significance := 1\<rparr>) 1800 0.5
   \<and> is_temporally_relevant (an_event\<lparr>memory_strength := 2\<rparr>) 1800 0.5"
proof -
  have m: "0 \<le> memory_strength an_event" and s: "0 \<le> significance an_event"
    by (simp_all add: an_event_def)
  have d: "calculate_temporal_distance an_event 1800 = 0.5"
    "calculate_temporal_distance an_event 900 = 0.25"
    by (simp_all add: calculate_temporal_distance_def an_event_def scale_factor_def)
  have r: "is_temporally_relevant an_event 1800 0.5"
    unfolding is_temporally_relevant_iff d by (simp add: an_event_def)
  have le: "calculate_temporal_distance an_event 900 \<le> calculate_temporal_distance an_event 1800"
    unfolding d by simp
  have s': "significance an_event \<le> 1" and m': "memory_strength an_event \<le> 2"
    by (simp_all add: an_event_def)
  note t = relevance_monotone [of an_event "0.5" 1800 an_event 900 1 2, OF m disjI1 [OF s]]
  from t r le have 1: "is_temporally_relevant an_event 900 0.5" by blast
  from t r s' have 2: "is_temporally_relevant (an_event\<lparr>significance := 1\<rparr>) 1800 0.5" by blast
  from t r m' have 3: "is_temporally_relevant (an_event\<lparr>memory_strength := 2\<rparr>) 1800 0.5" by blast
  from m s d(1) r le 1 2 3 show ?thesis
    by (simp add: is_temporally_relevant_default_def)
qed

text \<open>
  Claim C7 as stated fails without these sign conditions.
  \<^item> Recorded with the significance \<open>-0.5\<close>, which the code stores as it is given, an event
    is relevant at the threshold \<open>-0.3\<close> at the distance 1 and not relevant at the smaller
    distance 0: the test is not antitone in the distance.
  \<^item> An event of significance \<open>-1\<close> and memory strength \<open>-1\<close> is relevant at the default
    threshold 0.5, and is not relevant any more with the greater significance 0: the
    test is not monotone in the significance.
\<close>

theorem relevance_not_monotone_for_negative_values:
  "map_of (temporal_events
             (snd (process_temporal_experience tc_init 0 0 an_immediate_experience (- 0.5))))
          ''temporal_event_0'' = Some a_negative_event
   \<and> calculate_temporal_distance a_negative_event 0 \<le> calculate_temporal_distance a_negative_event 1
   \<and> is_temporally_relevant a_negative_event 1 (- 0.3)
   \<and> \<not> is_temporally_relevant a_negative_event 0 (- 0.3)
   \<and> significance a_fading_event \<le> 0
   \<and> is_temporally_relevant a_fading_event 0 0.5
   \<and> \<not> is_temporally_relevant (a_fading_event\<lparr>significance := 0\<rparr>) 0 0.5"
proof -
  have st: "map_of (temporal_events
             (snd (process_temporal_experience tc_init 0 0 an_immediate_experience (- 0.5))))
          ''temporal_event_0'' = Some a_negative_event"
    by (simp add: temporal_events_process tc_init_def an_immediate_experience_def
        a_negative_event_def determine_temporal_scale_def identify_causal_relations_def
        str_int_def digit_char_def)
  have d: "calculate_temporal_distance a_negative_event 0 = 0"
    "calculate_temporal_distance a_negative_event 1 = 1"
    by (simp_all add: calculate_temporal_distance_def a_negative_event_def scale_factor_def)
  have r1: "is_temporally_relevant a_negative_event 1 (- 0.3)"
    unfolding is_temporally_relevant_iff d by (simp add: a_negative_event_def)
  have r0: "\<not> is_temporally_relevant a_negative_event 0 (- 0.3)"
    unfolding is_temporally_relevant_iff d by (simp add: a_negative_event_def)
  have s0: "significance a_fading_event \<le> 0"
    by (simp add: a_fading_event_def)
  have m1: "is_temporally_relevant a_fading_event 0 0.5"
    by (simp add: is_temporally_relevant_iff calculate_temporal_distance_def a_fading_event_def
        an_event_def scale_factor_def)
  have m0: "\<not> is_temporally_relevant (a_fading_event\<lparr>significance := 0\<rparr>) 0 0.5"
    by (simp add: is_temporally_relevant_iff calculate_temporal_distance_def a_fading_event_def
        an_event_def scale_factor_def)
  from st d r1 r0 s0 m1 m0 show ?thesis by simp
qed

lemma set_update_subset: "set (AList.update k v xs) \<subseteq> insert (k, v) (set xs)"
  by (induction xs) auto

lemma full_strength_process:
  "full_strength tcs \<Longrightarrow> full_strength (snd (process_temporal_experience tcs ms now xd sig))"
  unfolding full_strength_def temporal_events_process list_all_iff
  using set_update_subset by fastforce

lemma full_strength_foundational_loop:
  "full_strength tcs \<Longrightarrow> full_strength (foundational_loop tcs clk i xds)"
  by (induction xds arbitrary: tcs i) (auto simp: full_strength_process split: option.splits)

lemma full_strength_step: "full_strength tcs \<Longrightarrow> full_strength (tc_step tcs op)"
proof (cases op)
  case (TcInitialize clk)
  assume "full_strength tcs"
  then have "full_strength (initialize_present_moment tcs)"
    by (simp add: full_strength_def initialize_present_moment_def)
  then have "full_strength (create_foundational_events (initialize_present_moment tcs) clk)"
    unfolding create_foundational_events_def by (rule full_strength_foundational_loop)
  then show ?thesis
    using TcInitialize by (simp add: tc_initialize_def full_strength_def)
next
  case (ProcessTemporalExperience ms now xd sig)
  assume "full_strength tcs"
  then show ?thesis
    using ProcessTemporalExperience by (simp add: full_strength_process)
next
  case (GetTemporalState now)
  assume "full_strength tcs"
  then show ?thesis
    using GetTemporalState
    by (simp add: get_temporal_consciousness_state_def update_temporal_metrics_def Let_def
        full_strength_def)
qed

lemma full_strength_run: "full_strength tcs \<Longrightarrow> full_strength (tc_run tcs ops)"
  unfolding tc_run_def by (induction ops arbitrary: tcs) (simp_all add: full_strength_step)

lemma full_strength_init: "full_strength tc_init"
  by (simp add: full_strength_def tc_init_def)

lemma keys_tc_step:
  "fst ` set (temporal_events tcs) \<subseteq> fst ` set (temporal_events (tc_step tcs op))"
proof (cases op)
  case (TcInitialize clk)
  then show ?thesis
    using keys_foundational_loop [of "initialize_present_moment tcs" clk 0 foundational_events]
    by (simp add: tc_initialize_def create_foundational_events_def initialize_present_moment_def)
next
  case (ProcessTemporalExperience ms now xd sig)
  then show ?thesis
    by (simp only: tc_step.simps keys_process_temporal_experience) blast
next
  case (GetTemporalState now)
  then show ?thesis
    by (simp add: get_temporal_consciousness_state_def update_temporal_metrics_def Let_def)
qed

lemma map_of_full_strength:
  "full_strength tcs \<Longrightarrow> k \<in> fst ` set (temporal_events tcs) \<Longrightarrow>
   map_option memory_strength (map_of (temporal_events tcs) k) = Some 1"
proof -
  assume f: "full_strength tcs" and k: "k \<in> fst ` set (temporal_events tcs)"
  from k obtain e where e: "map_of (temporal_events tcs) k = Some e"
    by (metis domD dom_map_of_conv_image_fst)
  then have "(k, e) \<in> set (temporal_events tcs)"
    by (rule map_of_SomeD)
  then have "e \<in> snd ` set (temporal_events tcs)"
    by force
  with f have "memory_strength e = 1"
    by (auto simp: full_strength_def list_all_iff)
  with e show ?thesis by simp
qed

text \<open>
  Claim C9. An event is created with memory strength 1.0. In every state reached from a
  new temporal store by any sequence of initializations, recordings and state queries
  (which recompute the metrics), every stored event has memory strength exactly 1, so its
  relevance test is \<open>significance / (1 + distance) > threshold\<close>; and after one more call
  the event stored under each id still has the memory strength it had before the call:
  no call lowers or raises it.
\<close>

theorem memory_strength_stays_one:
  "map_option memory_strength
     (map_of (temporal_events (snd (process_temporal_experience tcs ms now xd sig)))
        (fst (process_temporal_experience tcs ms now xd sig))) = Some 1
   \<and> list_all
       (\<lambda>e. memory_strength e = 1
             \<and> is_temporally_relevant e ref thr
                 = (significance e / (1 + calculate_temporal_distance e ref) > thr))
       (map snd (temporal_events (tc_run tc_init ops)))
   \<and> list_all
       (\<lambda>(k, e). map_option memory_strength
                    (map_of (temporal_events (tc_step (tc_run tc_init ops) op)) k)
                  = Some (memory_strength e))
       (temporal_events (tc_run tc_init ops))"
proof -
  let ?s = "tc_run tc_init ops"
  have a: "map_option memory_strength
     (map_of (temporal_events (snd (process_temporal_experience tcs ms now xd sig)))
        (fst (process_temporal_experience tcs ms now xd sig))) = Some 1"
    by (simp add: temporal_events_process fst_process_temporal_experience update_conv')
  have f: "full_strength ?s"
    using full_strength_init by (rule full_strength_run)
  then have f': "full_strength (tc_step ?s op)"
    by (rule full_strength_step)
  have b: "list_all
       (\<lambda>e. memory_strength e = 1
             \<and> is_temporally_relevant e ref thr
                 = (significance e / (1 + calculate_temporal_distance e ref) > thr))
       (map snd (temporal_events ?s))"
    using f by (simp add: full_strength_def list_all_iff is_temporally_relevant_iff)
  have c: "list_all
       (\<lambda>(k, e). map_option memory_strength (map_of (temporal_events (tc_step ?s op)) k)
                  = Some (memory_strength e))
       (temporal_events ?s)"
    unfolding list_all_iff
  proof (intro ballI)
    fix x assume x: "x \<in> set (temporal_events ?s)"
    obtain k e where ke: "x = (k, e)" by (cases x)
    from x ke have "k \<in> fst ` set (temporal_events ?s)" by force
    with keys_tc_step [of ?s op] have "k \<in> fst ` set (temporal_events (tc_step ?s op))"
      by blast
    with f' have "map_option memory_strength (map_of (temporal_events (tc_step ?s op)) k) = Some 1"
      by (rule map_of_full_strength)
    moreover from x ke f have "memory_strength e = 1"
      by (force simp: full_strength_def list_all_iff)
    ultimately show "case x of (k, e) \<Rightarrow>
        map_option memory_strength (map_of (temporal_events (tc_step ?s op)) k)
          = Some (memory_strength e)"
      using ke by simp
  qed
  from a b c show ?thesis by blast
qed

end
